theory Spec2Isabelle
  imports Complex_Main
begin

section \<open>The range slider of \<open>src/index.tsx\<close>\<close>

text \<open>
  The component \<open>Slider\<close> keeps its data in React refs and state and changes it from
  event handlers. The embedding makes that data one record, \<open>slider_state\<close>, and
  every handler a function from state to state. Calls of the host's callbacks and of
  the collaborating hooks are appended to a trace, in the order the code makes them.

  A JavaScript number is a binary64 value. The model takes numbers as reals and
  rounds where the code's arithmetic decides which value is stored: the session
  bounds \<open>low + minRange\<close> and \<open>high - minRange\<close> and the result of
  \<open>getValueForPosition\<close> are rounded to the nearest binary64 value by \<open>fl\<close>. Pixel
  positions are computed exactly. \<open>NaN\<close>, the infinities and subnormal numbers are
  not represented. Where \<open>max = min\<close> the quotient the code computes is \<open>NaN\<close> or
  an infinity in JavaScript and \<open>0\<close> in HOL; the statements about pixel positions
  therefore assume \<open>min < max\<close>. An optional prop is an \<open>option\<close>, with
  \<open>None\<close> for \<open>undefined\<close>. A callback prop is \<open>Some k\<close>, the function with identity
  \<open>k\<close>, or \<open>None\<close>; what a callback does is its entry in the trace.
\<close>

subsection \<open>Data\<close>

text \<open>
  \<open>inPropsRef.current\<close>, destructured at lines 106, 229, 246 and 297 as
  \<open>{low, high, min, max, step}\<close>.
\<close>

record in_props =
  low :: real
  high :: real
  min_val :: real
  max_val :: real
  step_val :: real

text \<open>\<open>gestureStateRef.current\<close>, line 88.\<close>

record gesture_state =
  isLow :: bool
  lastValue :: real
  lastPosition :: real

text \<open>
  The calls that leave the component: the three notification props, and the update
  functions returned by \<open>useSelectedRail\<close> and \<open>useThumbFollower\<close>. The bodies
  of those functions are in \<open>./hooks\<close>, which is not among the sources; the model
  records that they are called, and with what.
\<close>

datatype call =
    ValueChanged real real bool
  | SliderTouchStart real real
  | SliderTouchEnd real real
  | SelectedRailUpdate
  | LabelUpdate real real
  | NotchUpdate real real

text \<open>
  What one render of \<open>Slider\<close> has in scope and its handlers close over: the props
  (lines 54-74) and the results of the hooks of \<open>./hooks\<close> that the code tests for
  presence (\<open>labelUpdate\<close>, \<open>notchUpdate\<close>, lines 275 and 278), reads
  (\<open>lowPrev\<close> and \<open>highPrev\<close>, the fields of \<open>inPropsRefPrev\<close>, line 134) or
  lists as a dependency (\<open>updateSelectedRail\<close> and \<open>inPropsRefPrev\<close>, each by its
  identity). The hooks are not among the sources, so their results are parameters of
  the render. The props \<open>step\<close>, \<open>floatingLabel\<close>, \<open>allowLabelOverflow\<close> and the
  render props are only handed on to hooks and views and are left out.
\<close>

record render_ctx =
  min_prop :: real
  max_prop :: real
  minRange :: real
  lowProp :: "real option"
  highProp :: "real option"
  disableRange :: bool
  disabled :: bool
  onValueChanged :: "nat option"
  onSliderTouchStart :: "nat option"
  onSliderTouchEnd :: "nat option"
  labelUpdate :: bool
  notchUpdate :: bool
  updateSelectedRail :: nat
  lowPrev :: "real option"
  highPrev :: "real option"
  inPropsRefPrev :: nat

text \<open>
  The closure that \<open>onPanResponderGrant\<close> builds (lines 244-288): \<open>handlePositionChange\<close>
  and the listener around it read \<open>containerX\<close>, \<open>isLow\<close>, \<open>containerWidth\<close> and
  \<open>thumbWidth\<close> as they were at touch-down, and the props of the render that created
  the handlers.
\<close>

record session =
  containerX :: real
  sess_isLow :: bool
  containerWidth :: real
  sess_thumbWidth :: real
  sess_ctx :: render_ctx

text \<open>
  The dependency lists of \<open>updateThumbs\<close> (lines 123-131) and of the effect of lines
  133-148, as React compares them from one render to the next. \<open>inPropsRef\<close> is a ref
  object, the same in every render, and is left out.
\<close>

record updateThumbs_deps =
  dep_disableRange :: bool
  dep_max :: real
  dep_min :: real
  dep_onValueChanged :: "nat option"
  dep_thumbWidth :: real
  dep_updateSelectedRail :: nat

record sync_deps =
  dep_highProp :: "real option"
  dep_lowPrev :: "real option"
  dep_highPrev :: "real option"
  dep_lowProp :: "real option"
  dep_inPropsRefPrev :: nat
  dep_updateThumbs :: updateThumbs_deps

text \<open>
  The mutable data of one mounted component: the refs and state of lines 75-92, the
  listeners registered on \<open>pointerX\<close>, the dependencies React remembers from the
  last render (\<open>None\<close> before the first), and the trace of calls made so far.
\<close>

record slider_state =
  inPropsRef :: in_props
  lowThumbX :: real
  highThumbX :: real
  gestureStateRef :: gesture_state
  isPressed :: bool
  containerWidthRef :: real
  thumbWidth :: real
  listeners :: "session list"
  memo_updateThumbs :: "updateThumbs_deps option"
  memo_sync :: "sync_deps option"
  trace :: "call list"

text \<open>A touch-down as the grant handler reads it (lines 216 and 225).\<close>

record touch =
  locationX :: real
  pageX :: real
  numberActiveTouches :: nat

subsection \<open>JavaScript's arithmetic\<close>

text \<open>
  \<open>+\<close> and \<open>-\<close> on JavaScript numbers give the exact result rounded to the nearest
  binary64 value, a tie going to the even significand. \<open>rne\<close> rounds a real to the
  nearest integer with ties to even; \<open>bexp x\<close> is the binary exponent of a positive
  \<open>x\<close>, the \<open>e\<close> with \<open>2\<^sup>e \<le> x < 2\<^sup>e\<^sup>+\<^sup>1\<close>; \<open>ulp x\<close> is the distance between
  neighbouring binary64 values at \<open>x\<close>, with 53 significant bits; \<open>fl\<close> is the
  rounding. The exponent is not bounded, so overflow and subnormal numbers are left
  out.
\<close>

definition rne :: "real \<Rightarrow> int" where
  "rne r = (let f = \<lfloor>r\<rfloor>; d = r - of_int f
            in if d < 1 / 2 then f else if 1 / 2 < d then f + 1
               else if even f then f else f + 1)"

function bexp :: "real \<Rightarrow> int" where
  "bexp x = (if x \<le> 0 then 0
             else if 2 \<le> x then bexp (x / 2) + 1
             else if x < 1 then bexp (2 * x) - 1
             else 0)"
  by pat_completeness auto
termination
proof (relation "measure (\<lambda>x. nat \<lfloor>\<bar>log 2 x\<bar>\<rfloor> + (if x < 1 then 1 else 0))", goal_cases)
  case 1
  show ?case by simp
next
  case (2 x)
  then have x: "0 < x" "2 \<le> x" by simp_all
  then have l: "log 2 (x / 2) = log 2 x - 1" by (simp add: log_divide_pos)
  from x have "1 \<le> log 2 x" by (simp add: le_log_iff)
  with l x show ?case by simp
next
  case (3 x)
  then have x: "0 < x" "x < 1" by simp_all
  then have l: "log 2 (2 * x) = log 2 x + 1" by (simp add: log_mult_pos)
  from x have n: "log 2 x < 0" by simp
  show ?case
  proof (cases "2 * x < 1")
    case True
    with x have "log 2 (2 * x) < 0" by simp
    with l n True x show ?thesis by simp
  next
    case False
    with x have "0 \<le> log 2 (2 * x)" by simp
    moreover from x have "2 * x < 2" by simp
    then have "log 2 (2 * x) < 1" using x by (simp add: log_less_iff)
    ultimately have "\<lfloor>\<bar>log 2 (2 * x)\<bar>\<rfloor> = 0" by (simp add: floor_eq_iff)
    with False x show ?thesis by simp
  qed
qed

declare bexp.simps [simp del]

definition ulp :: "real \<Rightarrow> real" where
  "ulp x = 2 powi (bexp x - 52)"

definition flp :: "real \<Rightarrow> real" where
  "flp x = of_int (rne (x / ulp x)) * ulp x"

definition fl :: "real \<Rightarrow> real" where
  "fl x = (if x = 0 then 0 else if 0 < x then flp x else - flp (- x))"

subsection \<open>The helpers of \<open>./helpers\<close> and the store's setters\<close>

text \<open>
  Modelled from the spec: \<open>clamp\<close> of \<open>./helpers\<close> is imported at line 28 and
  is not among the sources. The spec says only that a value is clamped to
  \<open>[min, max]\<close>: with ordered bounds the result is the nearest point of the
  interval.
\<close>

definition clamp :: "real \<Rightarrow> real \<Rightarrow> real \<Rightarrow> real" where
  "clamp v lo hi = min (max v lo) hi"

text \<open>
  Modelled from the spec: \<open>getValueForPosition\<close> of \<open>./helpers\<close> is not among
  the sources. Section 4.1 of the spec: inverse linear interpolation, the raw result
  clamped to \<open>[min, max]\<close>, then rounded to the nearest multiple of \<open>step\<close> from
  \<open>min\<close> (a half rounds up). The result is a JavaScript number, so it is a binary64
  value.
\<close>

definition getValueForPosition ::
  "real \<Rightarrow> real \<Rightarrow> real \<Rightarrow> real \<Rightarrow> real \<Rightarrow> real \<Rightarrow> real" where
  "getValueForPosition positionInView cw tw mn mx stp =
     (let raw = mn + (positionInView / (cw - tw)) * (mx - mn);
          clamped = clamp raw mn mx
      in fl (mn + of_int (round ((clamped - mn) / stp)) * stp))"

text \<open>
  Modelled from the spec: \<open>isLowCloser\<close> of \<open>./helpers\<close> is not among the
  sources. Section 4.2 of the spec: the thumb whose centre is closer in absolute
  distance is selected, a tie goes to the low thumb.
\<close>

definition isLowCloser :: "real \<Rightarrow> real \<Rightarrow> real \<Rightarrow> bool" where
  "isLowCloser downX lowPosition highPosition =
     (\<bar>downX - lowPosition\<bar> \<le> \<bar>downX - highPosition\<bar>)"

text \<open>
  Modelled from the spec: \<open>setLow\<close> and \<open>setHigh\<close> are returned by \<open>useLowHigh\<close>
  of \<open>./hooks\<close>, which is not among the sources. Section 2 of the spec: the value
  store exposes setters and a synchronous snapshot read, so a setter writes the
  field that \<open>inPropsRef.current\<close> is read from.
\<close>

definition setLow :: "real \<Rightarrow> slider_state \<Rightarrow> slider_state" where
  "setLow v s = s\<lparr>inPropsRef := (inPropsRef s)\<lparr>low := v\<rparr>\<rparr>"

definition setHigh :: "real \<Rightarrow> slider_state \<Rightarrow> slider_state" where
  "setHigh v s = s\<lparr>inPropsRef := (inPropsRef s)\<lparr>high := v\<rparr>\<rparr>"

text \<open>An optional callback: \<open>f?.(...)\<close> calls \<open>f\<close> only when it is defined.\<close>

definition call_opt :: "nat option \<Rightarrow> call \<Rightarrow> slider_state \<Rightarrow> slider_state" where
  "call_opt f c s = (case f of None \<Rightarrow> s | Some _ \<Rightarrow> s\<lparr>trace := trace s @ [c]\<rparr>)"

text \<open>A hook's update function, tested for presence as \<open>f && f(...)\<close>.\<close>

definition call_if :: "bool \<Rightarrow> call \<Rightarrow> slider_state \<Rightarrow> slider_state" where
  "call_if present c s = (if present then s\<lparr>trace := trace s @ [c]\<rparr> else s)"

subsection \<open>The drag controller\<close>

text \<open>The constant \<open>value\<close> of \<open>handlePositionChange\<close>, lines 246-260.\<close>

definition computedValue :: "session \<Rightarrow> real \<Rightarrow> slider_state \<Rightarrow> real" where
  "computedValue g positionInView s =
     (let st = inPropsRef s;
          minValue = (if sess_isLow g then min_val st
                      else fl (low st + minRange (sess_ctx g)));
          maxValue = (if sess_isLow g then fl (high st - minRange (sess_ctx g))
                      else max_val st)
      in clamp
           (getValueForPosition positionInView (containerWidth g) (sess_thumbWidth g)
              (min_val st) (max_val st) (step_val st))
           minValue maxValue)"

text \<open>
  \<open>handlePositionChange\<close>, lines 244-282. \<open>updateSelectedRail\<close> is called without
  a test there (line 281).
\<close>

definition handlePositionChange :: "session \<Rightarrow> real \<Rightarrow> slider_state \<Rightarrow> slider_state" where
  "handlePositionChange g positionInView s =
     (let st = inPropsRef s;
          c = sess_ctx g;
          v = computedValue g positionInView s
      in if lastValue (gestureStateRef s) = v then s
         else
           let availableSpace = containerWidth g - sess_thumbWidth g;
               absolutePosition = ((v - min_val st) / (max_val st - min_val st)) * availableSpace;
               s1 = s\<lparr>gestureStateRef := (gestureStateRef s)\<lparr>lastValue := v\<rparr>\<rparr>;
               s2 = s1\<lparr>gestureStateRef := (gestureStateRef s1)
                        \<lparr>lastPosition := absolutePosition + sess_thumbWidth g / 2\<rparr>\<rparr>;
               s3 = (if sess_isLow g then s2\<lparr>lowThumbX := absolutePosition\<rparr>
                     else s2\<lparr>highThumbX := absolutePosition\<rparr>);
               s4 = call_opt (onValueChanged c)
                      (ValueChanged (if sess_isLow g then v else low st)
                                    (if sess_isLow g then high st else v) True) s3;
               s5 = (if sess_isLow g then setLow v s4 else setHigh v s4);
               s6 = call_if (labelUpdate c)
                      (LabelUpdate (lastPosition (gestureStateRef s5)) v) s5;
               s7 = call_if (notchUpdate c)
                      (NotchUpdate (lastPosition (gestureStateRef s6)) v) s6
           in s7\<lparr>trace := trace s7 @ [SelectedRailUpdate]\<rparr>)"

text \<open>
  \<open>onPanResponderGrant\<close>, lines 212-289. The listener it registers is the closure
  \<open>g\<close>; \<open>run_listener\<close> below is the listener's body, lines 285-288.
\<close>

definition onPanResponderGrant :: "render_ctx \<Rightarrow> touch \<Rightarrow> slider_state \<Rightarrow> slider_state" where
  "onPanResponderGrant c t s =
     (if disabled c then s
      else if numberActiveTouches t > 1 then s
      else
        let s1 = s\<lparr>isPressed := True\<rparr>;
            downX = locationX t;
            cX = pageX t - downX;
            st = inPropsRef s1;
            s2 = call_opt (onSliderTouchStart c) (SliderTouchStart (low st) (high st)) s1;
            cw = containerWidthRef s2;
            tw = thumbWidth s2;
            lowPosition =
              tw / 2 + ((low st - min_val st) / (max_val st - min_val st)) * (cw - tw);
            highPosition =
              tw / 2 + ((high st - min_val st) / (max_val st - min_val st)) * (cw - tw);
            il = (disableRange c \<or> isLowCloser downX lowPosition highPosition);
            s3 = s2\<lparr>gestureStateRef := (gestureStateRef s2)\<lparr>isLow := il\<rparr>\<rparr>;
            g = \<lparr>containerX = cX, sess_isLow = il, containerWidth = cw,
                 sess_thumbWidth = tw, sess_ctx = c\<rparr>;
            s4 = handlePositionChange g downX s3;
            s5 = s4\<lparr>listeners := []\<rparr>
        in s5\<lparr>listeners := listeners s5 @ [g]\<rparr>)"

definition run_listener :: "session \<Rightarrow> real \<Rightarrow> slider_state \<Rightarrow> slider_state" where
  "run_listener g pointerPosition s =
     (let positionInView = pointerPosition - containerX g
      in handlePositionChange g positionInView s)"

text \<open>
  \<open>onPanResponderMove\<close>, lines 291-293: \<open>undefined\<close> when the control is disabled,
  otherwise \<open>Animated.event\<close> stores \<open>moveX\<close> in \<open>pointerX\<close>, which calls every
  registered listener in turn.
\<close>

definition onPanResponderMove :: "render_ctx \<Rightarrow> real \<Rightarrow> slider_state \<Rightarrow> slider_state" where
  "onPanResponderMove c moveX s =
     (if disabled c then s
      else fold (\<lambda>g acc. run_listener g moveX acc) (listeners s) s)"

text \<open>\<open>onPanResponderRelease\<close>, lines 295-299.\<close>

definition onPanResponderRelease :: "render_ctx \<Rightarrow> slider_state \<Rightarrow> slider_state" where
  "onPanResponderRelease c s =
     (let s1 = s\<lparr>isPressed := False\<rparr>;
          st = inPropsRef s1
      in call_opt (onSliderTouchEnd c) (SliderTouchEnd (low st) (high st)) s1)"

text \<open>
  \<open>onPanResponderTerminate\<close> is \<open>trueFunc\<close> (line 204): it changes nothing.
  \<open>onPanResponderTerminationRequest\<close> is \<open>falseFunc\<close> (line 203): its result is
  \<open>false\<close> in every state.
\<close>

definition onPanResponderTerminate :: "slider_state \<Rightarrow> slider_state" where
  "onPanResponderTerminate s = s"

definition onPanResponderTerminationRequest :: "slider_state \<Rightarrow> bool" where
  "onPanResponderTerminationRequest s = False"

subsection \<open>Thumb positions and the effects of a render\<close>

text \<open>
  \<open>updateThumbs\<close>, lines 101-122. Here \<open>min\<close> and \<open>max\<close> are the props, and
  \<open>updateSelectedRail\<close> is the function that \<open>useSelectedRail\<close> returned, so the test
  of line 119 succeeds.
\<close>

definition updateThumbs :: "render_ctx \<Rightarrow> slider_state \<Rightarrow> slider_state" where
  "updateThumbs c s =
     (let cw = containerWidthRef s
      in if thumbWidth s = 0 \<or> cw = 0 then s
         else
           let lo = low (inPropsRef s);
               hi = high (inPropsRef s);
               s1 = (if \<not> disableRange c
                     then s\<lparr>highThumbX :=
                            ((hi - min_prop c) / (max_prop c - min_prop c)) * (cw - thumbWidth s)\<rparr>
                     else s);
               s2 = s1\<lparr>lowThumbX :=
                        ((lo - min_prop c) / (max_prop c - min_prop c)) * (cw - thumbWidth s1)\<rparr>;
               s3 = s2\<lparr>trace := trace s2 @ [SelectedRailUpdate]\<rparr>
           in call_opt (onValueChanged c) (ValueChanged lo hi False) s3)"







subsection \<open>The component as a machine\<close>

text \<open>
  The state of a freshly mounted component, lines 82-92, around the store that
  \<open>useLowHigh\<close> created.
\<close>

definition initial_state :: "in_props \<Rightarrow> slider_state" where
  "initial_state st =
     \<lparr>inPropsRef = st, lowThumbX = 0, highThumbX = 0,
      gestureStateRef = \<lparr>isLow = True, lastValue = 0, lastPosition = 0\<rparr>,
      isPressed = False, containerWidthRef = 0, thumbWidth = 0, listeners = [],
      memo_updateThumbs = None, memo_sync = None, trace = []\<rparr>"

text \<open>
  The events the gesture system delivers to the pan handlers of lines 198-300, each
  with the props of the render whose handlers receive it.
\<close>

datatype gesture_event = Grant touch | Move real | Release | Terminate

fun gesture_step :: "render_ctx \<Rightarrow> gesture_event \<Rightarrow> slider_state \<Rightarrow> slider_state" where
  "gesture_step c (Grant t) s = onPanResponderGrant c t s"
| "gesture_step c (Move x) s = onPanResponderMove c x s"
| "gesture_step c Release s = onPanResponderRelease c s"
| "gesture_step c Terminate s = onPanResponderTerminate s"

fun gesture_run :: "(render_ctx \<times> gesture_event) list \<Rightarrow> slider_state \<Rightarrow> slider_state" where
  "gesture_run [] s = s"
| "gesture_run ((c, e) # es) s = gesture_run es (gesture_step c e s)"

text \<open>The range invariant of the data model, for a minimum separation \<open>mr\<close>.\<close>

definition range_ok :: "real \<Rightarrow> slider_state \<Rightarrow> bool" where
  "range_ok mr s =
     (let st = inPropsRef s
      in min_val st \<le> low st \<and> low st \<le> high st \<and> high st \<le> max_val st \<and>
         mr \<le> high st - low st)"

text \<open>
  What the stored values keep along a drag: their order below \<open>max\<close>, and that each
  is a binary64 value.
\<close>

definition store_ok :: "slider_state \<Rightarrow> bool" where
  "store_ok s =
     (let st = inPropsRef s
      in low st \<le> high st \<and> high st \<le> max_val st \<and>
         fl (low st) = low st \<and> fl (high st) = high st \<and>
         fl (min_val st) = min_val st \<and> fl (max_val st) = max_val st)"

text \<open>The change notifications in a trace.\<close>

fun isValueChanged :: "call \<Rightarrow> bool" where
  "isValueChanged (ValueChanged l h b) = True"
| "isValueChanged _ = False"

text \<open>
  Two names for what an accepted touch-down builds, lines 220-243: the closure, and
  the state in which it processes the down-point.
\<close>

definition grant_session :: "render_ctx \<Rightarrow> touch \<Rightarrow> slider_state \<Rightarrow> session" where
  "grant_session c t s =
     (let st = inPropsRef s; cw = containerWidthRef s; tw = thumbWidth s
      in \<lparr>containerX = pageX t - locationX t,
          sess_isLow = (disableRange c \<or>
             isLowCloser (locationX t)
               (tw / 2 + ((low st - min_val st) / (max_val st - min_val st)) * (cw - tw))
               (tw / 2 + ((high st - min_val st) / (max_val st - min_val st)) * (cw - tw))),
          containerWidth = cw, sess_thumbWidth = tw, sess_ctx = c\<rparr>)"

definition grant_pre :: "render_ctx \<Rightarrow> touch \<Rightarrow> slider_state \<Rightarrow> slider_state" where
  "grant_pre c t s =
     (call_opt (onSliderTouchStart c)
        (SliderTouchStart (low (inPropsRef s)) (high (inPropsRef s))) (s\<lparr>isPressed := True\<rparr>))
     \<lparr>gestureStateRef := (gestureStateRef s)\<lparr>isLow := sess_isLow (grant_session c t s)\<rparr>\<rparr>"

subsection \<open>Concrete inputs\<close>

text \<open>
  A slider from 0 to 100 in steps of 1 with the thumbs at 20 and 80, a container
  120 wide and a thumb 20 wide, and a touch on the low thumb.
\<close>

definition ex_store :: in_props where
  "ex_store = \<lparr>low = 20, high = 80, min_val = 0, max_val = 100, step_val = 1\<rparr>"

definition ex_ctx :: render_ctx where
  "ex_ctx = \<lparr>min_prop = 0, max_prop = 100, minRange = 0, lowProp = None, highProp = None,
     disableRange = False, disabled = False, onValueChanged = Some 1,
     onSliderTouchStart = Some 2, onSliderTouchEnd = Some 3, labelUpdate = True,
     notchUpdate = False, updateSelectedRail = 4, lowPrev = None, highPrev = None,
     inPropsRefPrev = 5\<rparr>"

definition ex_state :: slider_state where
  "ex_state = (initial_state ex_store)\<lparr>containerWidthRef := 120, thumbWidth := 20\<rparr>"

definition ex_touch :: touch where
  "ex_touch = \<lparr>locationX = 30, pageX = 30, numberActiveTouches = 1\<rparr>"

definition ex_session :: session where
  "ex_session = \<lparr>containerX = 0, sess_isLow = True, containerWidth = 120,
     sess_thumbWidth = 20, sess_ctx = ex_ctx\<rparr>"

text \<open>The same slider while the touch is being processed, and after.\<close>

definition ex_pre :: slider_state where
  "ex_pre = ex_state\<lparr>isPressed := True, trace := [SliderTouchStart 20 80]\<rparr>"

definition ex_dragging :: slider_state where
  "ex_dragging = onPanResponderGrant ex_ctx ex_touch ex_state"

text \<open>The same props with a negative \<open>minRange\<close>, and the closure a touch-down builds from them.\<close>

definition ex_ctx_neg :: render_ctx where
  "ex_ctx_neg = ex_ctx\<lparr>minRange := - 10\<rparr>"

definition ex_session_neg :: session where
  "ex_session_neg = ex_session\<lparr>sess_ctx := ex_ctx_neg\<rparr>"




text \<open>
  A slider from 0 to 1 in steps of a quarter, with \<open>high\<close> the binary64 value of
  \<open>0.8\<close> and \<open>minRange\<close> the binary64 value of \<open>0.1\<close>.
\<close>

definition ex_ctx_frac :: render_ctx where
  "ex_ctx_frac = ex_ctx\<lparr>minRange := 3602879701896397 / 36028797018963968\<rparr>"

definition ex_session_frac :: session where
  "ex_session_frac = ex_session\<lparr>sess_ctx := ex_ctx_frac\<rparr>"

definition ex_frac :: slider_state where
  "ex_frac = ex_state\<lparr>inPropsRef := \<lparr>low = 0, high = 3602879701896397 / 4503599627370496,
                                        min_val = 0, max_val = 1, step_val = 1 / 4\<rparr>\<rparr>"

text \<open>
  The same props with the control disabled; and the state in which a session has
  left \<open>lastValue = 30\<close> behind and the store's \<open>low\<close> has since become 50.
\<close>

definition ex_ctx_disabled :: render_ctx where
  "ex_ctx_disabled = ex_ctx\<lparr>disabled := True\<rparr>"






section \<open>Properties\<close>

subsection \<open>Rounding to binary64\<close>

lemma p2_pos: "0 < (2::real) powi k"
  by (simp add: zero_less_power_int)

lemma p2_suc: "(2::real) powi (k + 1) = 2 * 2 powi k"
  by (simp add: power_int_add)

lemma p2_pred: "(2::real) powi (k - 1) = 2 powi k / 2"
  by (simp add: power_int_diff)

lemma p2_mono: "m \<le> n \<Longrightarrow> (2::real) powi m \<le> 2 powi n"
  by (simp add: power_int_increasing)

lemma p2_add_nat: "(2::real) powi (k + int n) = 2 ^ n * 2 powi k"
  by (simp add: power_int_add)

lemma bexp_bounds: "0 < x \<Longrightarrow> 2 powi (bexp x) \<le> x \<and> x < 2 powi (bexp x + 1)"
proof (induction x rule: bexp.induct)
  case (1 x)
  show ?case
  proof (cases "2 \<le> x")
    case True
    define b where "b = bexp (x / 2)"
    from True "1.prems" "1.IH"(1) have "2 powi b \<le> x / 2 \<and> x / 2 < 2 powi (b + 1)"
      by (simp add: b_def)
    then have "2 powi (b + 1) \<le> x \<and> x < 2 powi (b + 1 + 1)"
      using p2_suc [of b] p2_suc [of "b + 1"] by simp
    moreover from True "1.prems" have "bexp x = b + 1"
      by (simp add: bexp.simps [of x] b_def)
    ultimately show ?thesis by simp
  next
    case False
    show ?thesis
    proof (cases "x < 1")
      case True
      define b where "b = bexp (2 * x)"
      from True False "1.prems" "1.IH"(2) have "2 powi b \<le> 2 * x \<and> 2 * x < 2 powi (b + 1)"
        by (simp add: b_def)
      then have "2 powi (b - 1) \<le> x \<and> x < 2 powi (b - 1 + 1)"
        using p2_pred [of b] p2_suc [of b] by simp
      moreover from True False "1.prems" have "bexp x = b - 1"
        by (simp add: bexp.simps [of x] b_def)
      ultimately show ?thesis by simp
    next
      case ge: False
      with False "1.prems" have "bexp x = 0" by (simp add: bexp.simps [of x])
      with ge False show ?thesis by simp
    qed
  qed
qed

lemma bexp_unique:
  assumes "0 < x" "2 powi a \<le> x" "x < 2 powi (a + 1)"
  shows "bexp x = a"
proof (rule ccontr)
  assume ne: "bexp x \<noteq> a"
  from bexp_bounds [OF assms(1)] have b: "2 powi (bexp x) \<le> x" "x < 2 powi (bexp x + 1)"
    by simp_all
  show False
  proof (cases "bexp x < a")
    case True
    then have "(2::real) powi (bexp x + 1) \<le> 2 powi a" by (intro p2_mono) simp
    with b(2) assms(2) show False by simp
  next
    case False
    with ne have "(2::real) powi (a + 1) \<le> 2 powi (bexp x)" by (intro p2_mono) simp
    with b(1) assms(3) show False by simp
  qed
qed

lemma rne_int: "rne (of_int n) = n"
  by (simp add: rne_def)

lemma rne_mono: "r \<le> r' \<Longrightarrow> rne r \<le> rne r'"
proof -
  assume le: "r \<le> r'"
  then have f: "\<lfloor>r\<rfloor> \<le> \<lfloor>r'\<rfloor>" by (rule floor_mono)
  have lo: "\<lfloor>r'\<rfloor> \<le> rne r'" and hi: "rne r \<le> \<lfloor>r\<rfloor> + 1"
    by (simp_all add: rne_def Let_def)
  show ?thesis
  proof (cases "\<lfloor>r\<rfloor> = \<lfloor>r'\<rfloor>")
    case True
    with le show ?thesis by (simp add: rne_def Let_def)
  next
    case False
    with f have "\<lfloor>r\<rfloor> + 1 \<le> \<lfloor>r'\<rfloor>" by simp
    with lo hi show ?thesis by simp
  qed
qed

lemma ulp_pos: "0 < ulp x"
  by (simp add: ulp_def p2_pos)

lemma ulp_scale:
  "2 powi (bexp x) = 2 ^ 52 * ulp x"
  "2 powi (bexp x + 1) = 2 ^ 53 * ulp x"
  "2 powi (bexp x + 1 + 1) = 2 ^ 54 * ulp x"
proof -
  have "(2::real) powi (bexp x) = 2 powi (bexp x - 52 + int 52)"
    and "(2::real) powi (bexp x + 1) = 2 powi (bexp x - 52 + int 53)"
    and "(2::real) powi (bexp x + 1 + 1) = 2 powi (bexp x - 52 + int 54)"
    by (rule arg_cong [of _ _ "\<lambda>k. (2::real) powi k"], simp)+
  then show "2 powi (bexp x) = 2 ^ 52 * ulp x"
    and "2 powi (bexp x + 1) = 2 ^ 53 * ulp x"
    and "2 powi (bexp x + 1 + 1) = 2 ^ 54 * ulp x"
    by (simp_all only: p2_add_nat ulp_def)
qed

lemma scaled_bounds:
  assumes "0 < x"
  shows "2 ^ 52 \<le> x / ulp x \<and> x / ulp x < 2 ^ 53"
proof -
  from bexp_bounds [OF assms] have "2 ^ 52 * ulp x \<le> x" "x < 2 ^ 53 * ulp x"
    by (simp_all only: ulp_scale)
  with ulp_pos [of x] show ?thesis by (simp add: pos_le_divide_eq pos_divide_less_eq)
qed

lemma rne_scaled:
  assumes "0 < x"
  shows "2 ^ 52 \<le> rne (x / ulp x) \<and> rne (x / ulp x) \<le> 2 ^ 53"
proof -
  from scaled_bounds [OF assms] have "of_int (2 ^ 52) \<le> x / ulp x" and "x / ulp x \<le> of_int (2 ^ 53)"
    by simp_all
  then have "rne (of_int (2 ^ 52)) \<le> rne (x / ulp x)" and "rne (x / ulp x) \<le> rne (of_int (2 ^ 53))"
    by (simp_all only: rne_mono)
  then show ?thesis by (simp only: rne_int)
qed

lemma rne_scaled_real:
  assumes "0 < x"
  shows "(2::real) ^ 52 \<le> of_int (rne (x / ulp x))" "of_int (rne (x / ulp x)) \<le> (2::real) ^ 53"
proof -
  from rne_scaled [OF assms]
  have "(of_int (2 ^ 52) :: real) \<le> of_int (rne (x / ulp x))"
    and "(of_int (rne (x / ulp x)) :: real) \<le> of_int (2 ^ 53)"
    by (simp_all only: of_int_le_iff)
  then show "(2::real) ^ 52 \<le> of_int (rne (x / ulp x))"
    and "of_int (rne (x / ulp x)) \<le> (2::real) ^ 53"
    by simp_all
qed

lemma flp_bounds:
  assumes "0 < x"
  shows "2 powi (bexp x) \<le> flp x \<and> flp x \<le> 2 powi (bexp x + 1)"
  using rne_scaled_real [OF assms] ulp_pos [of x]
  by (simp only: ulp_scale flp_def) simp

lemma flp_pos:
  assumes "0 < x"
  shows "0 < flp x"
proof -
  from flp_bounds [OF assms] have "2 powi (bexp x) \<le> flp x" by simp
  with p2_pos [of "bexp x"] show ?thesis by (rule less_le_trans)
qed

lemma flp_mono:
  assumes "0 < x" "x \<le> y"
  shows "flp x \<le> flp y"
proof -
  from assms have y: "0 < y" by simp
  have le: "bexp x \<le> bexp y"
  proof (rule ccontr)
    assume "\<not> bexp x \<le> bexp y"
    then have "(2::real) powi (bexp y + 1) \<le> 2 powi (bexp x)" by (intro p2_mono) simp
    with bexp_bounds [OF assms(1)] bexp_bounds [OF y] assms(2) show False by simp
  qed
  show ?thesis
  proof (cases "bexp x = bexp y")
    case True
    then have u: "ulp x = ulp y" by (simp add: ulp_def)
    have "0 < ulp y" by (simp add: ulp_def p2_pos)
    with assms(2) have "x / ulp y \<le> y / ulp y" by (simp add: divide_right_mono)
    then have "rne (x / ulp y) \<le> rne (y / ulp y)" by (rule rne_mono)
    with \<open>0 < ulp y\<close> show ?thesis by (simp add: flp_def u)
  next
    case False
    with le have "(2::real) powi (bexp x + 1) \<le> 2 powi (bexp y)" by (intro p2_mono) simp
    with flp_bounds [OF assms(1)] flp_bounds [OF y] show ?thesis by simp
  qed
qed

lemma fl_mono: "x \<le> y \<Longrightarrow> fl x \<le> fl y"
proof -
  assume le: "x \<le> y"
  consider "x = 0" | "0 < x" | "x < 0" by linarith
  then show ?thesis
  proof cases
    case 1
    with le flp_pos [of y] show ?thesis by (auto simp: fl_def less_eq_real_def)
  next
    case 2
    with le flp_mono [of x y] show ?thesis by (simp add: fl_def)
  next
    case 3
    consider "y = 0" | "0 < y" | "y < 0" by linarith
    then show ?thesis
    proof cases
      case 1
      with 3 flp_pos [of "- x"] show ?thesis by (simp add: fl_def less_eq_real_def)
    next
      case 2
      with 3 flp_pos [of "- x"] flp_pos [of y] show ?thesis by (simp add: fl_def)
    next
      case y: 3
      with 3 le flp_mono [of "- y" "- x"] show ?thesis by (simp add: fl_def)
    qed
  qed
qed

lemma flp_idem:
  assumes "0 < x"
  shows "flp (flp x) = flp x"
proof -
  let ?n = "rne (x / ulp x)"
  note u = ulp_pos [of x]
  have y: "flp x = of_int ?n * ulp x" by (simp add: flp_def)
  from flp_pos [OF assms] have p: "0 < flp x" .
  note n = rne_scaled_real [OF assms]
  show ?thesis
  proof (cases "?n = 2 ^ 53")
    case True
    then have v: "flp x = 2 ^ 53 * ulp x" by (simp add: y)
    with u have "2 ^ 53 * ulp x \<le> flp x" "flp x < 2 ^ 54 * ulp x"
      by simp_all
    then have "2 powi (bexp x + 1) \<le> flp x" "flp x < 2 powi (bexp x + 1 + 1)"
      by (simp_all only: ulp_scale)
    from bexp_unique [OF p this] have e: "bexp (flp x) = bexp x + 1" .
    have "ulp (flp x) = 2 powi (bexp x - 52 + 1)"
      by (simp add: ulp_def e)
    then have w: "ulp (flp x) = 2 * ulp x"
      by (simp only: p2_suc ulp_def)
    with v u have "flp x / ulp (flp x) = of_int (2 ^ 52)" by simp
    then have r: "rne (flp x / ulp (flp x)) = 2 ^ 52" by (simp only: rne_int)
    have "flp (flp x) = of_int (rne (flp x / ulp (flp x))) * ulp (flp x)"
      by (rule flp_def)
    also have "\<dots> = of_int (2 ^ 52) * ulp (flp x)" by (simp only: r)
    also have "\<dots> = of_int (2 ^ 52) * (2 * ulp x)" by (simp only: w)
    also have "\<dots> = flp x" by (simp add: v)
    finally show ?thesis .
  next
    case False
    with rne_scaled [OF assms] have "?n < 2 ^ 53" by simp
    then have "(of_int ?n :: real) < of_int (2 ^ 53)" by (simp only: of_int_less_iff)
    then have "of_int ?n < (2::real) ^ 53" by simp
    with n(1) u have "2 ^ 52 * ulp x \<le> flp x" "flp x < 2 ^ 53 * ulp x"
      by (simp_all add: y)
    then have "2 powi (bexp x) \<le> flp x" "flp x < 2 powi (bexp x + 1)"
      by (simp_all only: ulp_scale)
    from bexp_unique [OF p this] have w: "ulp (flp x) = ulp x" by (simp add: ulp_def)
    moreover from u have "flp x / ulp x = of_int ?n" by (simp add: y)
    ultimately have r: "rne (flp x / ulp (flp x)) = ?n" by (simp only: rne_int)
    have "flp (flp x) = of_int (rne (flp x / ulp (flp x))) * ulp (flp x)"
      by (rule flp_def)
    also have "\<dots> = of_int ?n * ulp (flp x)" by (simp only: r)
    also have "\<dots> = of_int ?n * ulp x" by (simp only: w)
    also have "\<dots> = flp x" by (simp only: y)
    finally show ?thesis .
  qed
qed

lemma fl_idem: "fl (fl x) = fl x"
proof -
  consider "x = 0" | "0 < x" | "x < 0" by linarith
  then show ?thesis
  proof cases
    case 1
    then show ?thesis by (simp add: fl_def)
  next
    case 2
    with flp_pos [of x] flp_idem [of x] show ?thesis by (simp add: fl_def)
  next
    case 3
    with flp_pos [of "- x"] flp_idem [of "- x"] show ?thesis by (simp add: fl_def)
  qed
qed

lemma fl_small:
  "fl 0 = 0" "fl 1 = 1" "fl (1 / 4) = 1 / 4" "fl 20 = 20" "fl 25 = 25" "fl 30 = 30"
  "fl 40 = 40" "fl 50 = 50" "fl 80 = 80" "fl 90 = 90" "fl 95 = 95" "fl 100 = 100"
  "fl (- 5) = - 5"
  by (simp_all add: fl_def flp_def ulp_def bexp.simps rne_def)

subsection \<open>What the handlers do to each field\<close>

lemma call_opt_fields [simp]:
  "inPropsRef (call_opt f c s) = inPropsRef s"
  "lowThumbX (call_opt f c s) = lowThumbX s"
  "highThumbX (call_opt f c s) = highThumbX s"
  "gestureStateRef (call_opt f c s) = gestureStateRef s"
  "isPressed (call_opt f c s) = isPressed s"
  "containerWidthRef (call_opt f c s) = containerWidthRef s"
  "thumbWidth (call_opt f c s) = thumbWidth s"
  "listeners (call_opt f c s) = listeners s"
  "memo_updateThumbs (call_opt f c s) = memo_updateThumbs s"
  "memo_sync (call_opt f c s) = memo_sync s"
  "trace (call_opt f c s) = trace s @ (case f of None \<Rightarrow> [] | Some k \<Rightarrow> [c])"
  by (simp_all add: call_opt_def split: option.split)

lemma call_if_fields [simp]:
  "inPropsRef (call_if b c s) = inPropsRef s"
  "lowThumbX (call_if b c s) = lowThumbX s"
  "highThumbX (call_if b c s) = highThumbX s"
  "gestureStateRef (call_if b c s) = gestureStateRef s"
  "isPressed (call_if b c s) = isPressed s"
  "containerWidthRef (call_if b c s) = containerWidthRef s"
  "thumbWidth (call_if b c s) = thumbWidth s"
  "listeners (call_if b c s) = listeners s"
  "memo_updateThumbs (call_if b c s) = memo_updateThumbs s"
  "memo_sync (call_if b c s) = memo_sync s"
  "trace (call_if b c s) = trace s @ (if b then [c] else [])"
  by (simp_all add: call_if_def)

lemma clamp_between: "lo \<le> hi \<Longrightarrow> lo \<le> clamp v lo hi \<and> clamp v lo hi \<le> hi"
  by (simp add: clamp_def)

lemma clamp_upper: "clamp v lo hi \<le> hi"
  by (simp add: clamp_def)

lemma clamp_cases: "clamp v lo hi = v \<or> clamp v lo hi = lo \<or> clamp v lo hi = hi"
  by (auto simp: clamp_def min_def max_def)

lemma gvfp_double: "fl (getValueForPosition p cw tw mn mx stp) = getValueForPosition p cw tw mn mx stp"
  by (simp add: getValueForPosition_def Let_def fl_idem)

lemma hpc_skip:
  "lastValue (gestureStateRef s) = computedValue g p s \<Longrightarrow> handlePositionChange g p s = s"
  by (simp add: handlePositionChange_def Let_def)

lemma hpc_lastValue:
  "lastValue (gestureStateRef (handlePositionChange g p s)) = computedValue g p s"
  by (simp add: handlePositionChange_def Let_def setLow_def setHigh_def)

lemma hpc_isLow:
  "isLow (gestureStateRef (handlePositionChange g p s)) = isLow (gestureStateRef s)"
  by (simp add: handlePositionChange_def Let_def setLow_def setHigh_def)

lemma hpc_lastPosition:
  "lastPosition (gestureStateRef (handlePositionChange g p s)) =
     (if lastValue (gestureStateRef s) = computedValue g p s then lastPosition (gestureStateRef s)
      else ((computedValue g p s - min_val (inPropsRef s)) /
              (max_val (inPropsRef s) - min_val (inPropsRef s))) *
             (containerWidth g - sess_thumbWidth g) + sess_thumbWidth g / 2)"
  by (simp add: handlePositionChange_def Let_def setLow_def setHigh_def)

lemma hpc_frame:
  "listeners (handlePositionChange g p s) = listeners s"
  "isPressed (handlePositionChange g p s) = isPressed s"
  "containerWidthRef (handlePositionChange g p s) = containerWidthRef s"
  "thumbWidth (handlePositionChange g p s) = thumbWidth s"
  "memo_updateThumbs (handlePositionChange g p s) = memo_updateThumbs s"
  "memo_sync (handlePositionChange g p s) = memo_sync s"
  by (simp_all add: handlePositionChange_def Let_def setLow_def setHigh_def)

lemma hpc_inPropsRef:
  "inPropsRef (handlePositionChange g p s) =
     (if lastValue (gestureStateRef s) = computedValue g p s then inPropsRef s
      else if sess_isLow g then (inPropsRef s)\<lparr>low := computedValue g p s\<rparr>
      else (inPropsRef s)\<lparr>high := computedValue g p s\<rparr>)"
  by (simp add: handlePositionChange_def Let_def setLow_def setHigh_def)

lemma hpc_lowThumbX:
  "lowThumbX (handlePositionChange g p s) =
     (if lastValue (gestureStateRef s) \<noteq> computedValue g p s \<and> sess_isLow g
      then ((computedValue g p s - min_val (inPropsRef s)) /
              (max_val (inPropsRef s) - min_val (inPropsRef s))) *
             (containerWidth g - sess_thumbWidth g)
      else lowThumbX s)"
  by (simp add: handlePositionChange_def Let_def setLow_def setHigh_def)

lemma hpc_highThumbX:
  "highThumbX (handlePositionChange g p s) =
     (if lastValue (gestureStateRef s) \<noteq> computedValue g p s \<and> \<not> sess_isLow g
      then ((computedValue g p s - min_val (inPropsRef s)) /
              (max_val (inPropsRef s) - min_val (inPropsRef s))) *
             (containerWidth g - sess_thumbWidth g)
      else highThumbX s)"
  by (simp add: handlePositionChange_def Let_def setLow_def setHigh_def)

lemma hpc_trace:
  "trace (handlePositionChange g p s) =
     (if lastValue (gestureStateRef s) = computedValue g p s then trace s
      else trace s @
        (case onValueChanged (sess_ctx g) of None \<Rightarrow> []
         | Some k \<Rightarrow>
             [ValueChanged (if sess_isLow g then computedValue g p s else low (inPropsRef s))
                (if sess_isLow g then high (inPropsRef s) else computedValue g p s) True]) @
        (if labelUpdate (sess_ctx g)
         then [LabelUpdate (lastPosition (gestureStateRef (handlePositionChange g p s)))
                 (computedValue g p s)]
         else []) @
        (if notchUpdate (sess_ctx g)
         then [NotchUpdate (lastPosition (gestureStateRef (handlePositionChange g p s)))
                 (computedValue g p s)]
         else []) @
        [SelectedRailUpdate])"
  by (simp add: handlePositionChange_def Let_def setLow_def setHigh_def)

lemma grant_ignored:
  "disabled c \<or> 1 < numberActiveTouches t \<Longrightarrow> onPanResponderGrant c t s = s"
  by (auto simp: onPanResponderGrant_def)

lemma grant_accepted:
  "\<not> disabled c \<Longrightarrow> numberActiveTouches t \<le> 1 \<Longrightarrow>
   onPanResponderGrant c t s =
     (handlePositionChange (grant_session c t s) (locationX t) (grant_pre c t s))
       \<lparr>listeners := [grant_session c t s]\<rparr>"
  by (simp add: onPanResponderGrant_def grant_session_def grant_pre_def Let_def call_opt_def
      split: option.split)

lemma cv_cong:
  "inPropsRef s = inPropsRef s' \<Longrightarrow> computedValue g p s = computedValue g p s'"
  by (simp add: computedValue_def)


lemma updateThumbs_lowThumbX:
  "thumbWidth s \<noteq> 0 \<Longrightarrow> containerWidthRef s \<noteq> 0 \<Longrightarrow>
   lowThumbX (updateThumbs c s) =
     ((low (inPropsRef s) - min_prop c) / (max_prop c - min_prop c)) *
       (containerWidthRef s - thumbWidth s)"
  by (simp add: updateThumbs_def Let_def)

lemma updateThumbs_highThumbX:
  "thumbWidth s \<noteq> 0 \<Longrightarrow> containerWidthRef s \<noteq> 0 \<Longrightarrow>
   highThumbX (updateThumbs c s) =
     (if disableRange c then highThumbX s
      else ((high (inPropsRef s) - min_prop c) / (max_prop c - min_prop c)) *
             (containerWidthRef s - thumbWidth s))"
  by (simp add: updateThumbs_def Let_def)



lemma offset_bounds:
  fixes v mn mx w :: real
  assumes "mn < mx" "0 \<le> w" "mn \<le> v" "v \<le> mx"
  shows "0 \<le> ((v - mn) / (mx - mn)) * w \<and> ((v - mn) / (mx - mn)) * w \<le> w"
proof -
  from assms have q: "0 \<le> (v - mn) / (mx - mn)" "(v - mn) / (mx - mn) \<le> 1"
    by simp_all
  from q(1) assms(2) have "0 \<le> ((v - mn) / (mx - mn)) * w"
    by (rule mult_nonneg_nonneg)
  moreover from q(2) assms(2) have "((v - mn) / (mx - mn)) * w \<le> 1 * w"
    by (rule mult_right_mono)
  ultimately show ?thesis by simp
qed

lemma updateThumbs_highThumbX_range:
  "thumbWidth s \<noteq> 0 \<Longrightarrow> containerWidthRef s \<noteq> 0 \<Longrightarrow> \<not> disableRange c \<Longrightarrow>
   highThumbX (updateThumbs c s) =
     ((high (inPropsRef s) - min_prop c) / (max_prop c - min_prop c)) *
       (containerWidthRef s - thumbWidth s)"
  by (simp add: updateThumbs_highThumbX)

lemma updateThumbs_low_bounds:
  assumes "thumbWidth s \<noteq> 0" "containerWidthRef s \<noteq> 0"
    and "min_prop c < max_prop c" "thumbWidth s \<le> containerWidthRef s"
    and "min_prop c \<le> low (inPropsRef s)" "low (inPropsRef s) \<le> max_prop c"
  shows "0 \<le> lowThumbX (updateThumbs c s) \<and>
         lowThumbX (updateThumbs c s) \<le> containerWidthRef s - thumbWidth s"
proof -
  from assms(4) have "0 \<le> containerWidthRef s - thumbWidth s" by simp
  from offset_bounds [OF assms(3) this assms(5,6)] show ?thesis
    by (simp only: updateThumbs_lowThumbX [OF assms(1,2)])
qed

lemma updateThumbs_high_bounds:
  assumes "thumbWidth s \<noteq> 0" "containerWidthRef s \<noteq> 0" "\<not> disableRange c"
    and "min_prop c < max_prop c" "thumbWidth s \<le> containerWidthRef s"
    and "min_prop c \<le> high (inPropsRef s)" "high (inPropsRef s) \<le> max_prop c"
  shows "0 \<le> highThumbX (updateThumbs c s) \<and>
         highThumbX (updateThumbs c s) \<le> containerWidthRef s - thumbWidth s"
proof -
  from assms(5) have "0 \<le> containerWidthRef s - thumbWidth s" by simp
  from offset_bounds [OF assms(4) this assms(6,7)] assms(3) show ?thesis
    by (simp only: updateThumbs_highThumbX_range [OF assms(1,2,3)])
qed

lemma hpc_active_thumb:
  assumes "lastValue (gestureStateRef s) \<noteq> computedValue g p s"
  shows "(if sess_isLow g then lowThumbX (handlePositionChange g p s)
          else highThumbX (handlePositionChange g p s)) =
         ((computedValue g p s - min_val (inPropsRef s)) /
            (max_val (inPropsRef s) - min_val (inPropsRef s))) *
           (containerWidth g - sess_thumbWidth g)"
  using assms by (simp add: hpc_lowThumbX hpc_highThumbX)

lemma hpc_active_thumb_bounds:
  assumes "lastValue (gestureStateRef s) \<noteq> computedValue g p s"
    and "min_val (inPropsRef s) < max_val (inPropsRef s)"
    and "sess_thumbWidth g \<le> containerWidth g"
    and "min_val (inPropsRef s) \<le> computedValue g p s"
    and "computedValue g p s \<le> max_val (inPropsRef s)"
  shows "0 \<le> (if sess_isLow g then lowThumbX (handlePositionChange g p s)
                else highThumbX (handlePositionChange g p s)) \<and>
         (if sess_isLow g then lowThumbX (handlePositionChange g p s)
          else highThumbX (handlePositionChange g p s))
           \<le> containerWidth g - sess_thumbWidth g"
proof -
  from assms(3) have "0 \<le> containerWidth g - sess_thumbWidth g" by simp
  from offset_bounds [OF assms(2) this assms(4,5)] show ?thesis
    by (simp only: hpc_active_thumb [OF assms(1)])
qed






subsection \<open>The gesture handlers\<close>

lemma release_fields:
  "inPropsRef (onPanResponderRelease c s) = inPropsRef s"
  "gestureStateRef (onPanResponderRelease c s) = gestureStateRef s"
  "listeners (onPanResponderRelease c s) = listeners s"
  "isPressed (onPanResponderRelease c s) = False"
  "lowThumbX (onPanResponderRelease c s) = lowThumbX s"
  "highThumbX (onPanResponderRelease c s) = highThumbX s"
  "containerWidthRef (onPanResponderRelease c s) = containerWidthRef s"
  "thumbWidth (onPanResponderRelease c s) = thumbWidth s"
  "trace (onPanResponderRelease c s) =
     trace s @ (case onSliderTouchEnd c of None \<Rightarrow> []
                | Some k \<Rightarrow> [SliderTouchEnd (low (inPropsRef s)) (high (inPropsRef s))])"
  by (simp_all add: onPanResponderRelease_def Let_def)

lemma grant_pre_fields:
  "inPropsRef (grant_pre c t s) = inPropsRef s"
  "listeners (grant_pre c t s) = listeners s"
  "lastValue (gestureStateRef (grant_pre c t s)) = lastValue (gestureStateRef s)"
  "lastPosition (gestureStateRef (grant_pre c t s)) = lastPosition (gestureStateRef s)"
  "isLow (gestureStateRef (grant_pre c t s)) = sess_isLow (grant_session c t s)"
  "lowThumbX (grant_pre c t s) = lowThumbX s"
  "highThumbX (grant_pre c t s) = highThumbX s"
  "isPressed (grant_pre c t s) = True"
  "trace (grant_pre c t s) =
     trace s @ (case onSliderTouchStart c of None \<Rightarrow> []
                | Some k \<Rightarrow> [SliderTouchStart (low (inPropsRef s)) (high (inPropsRef s))])"
  by (simp_all add: grant_pre_def)

lemma grant_session_fields:
  "containerX (grant_session c t s) = pageX t - locationX t"
  "containerWidth (grant_session c t s) = containerWidthRef s"
  "sess_thumbWidth (grant_session c t s) = thumbWidth s"
  "sess_ctx (grant_session c t s) = c"
  by (simp_all add: grant_session_def Let_def)

lemma grant_listeners:
  "\<not> disabled c \<Longrightarrow> numberActiveTouches t \<le> 1 \<Longrightarrow>
   listeners (onPanResponderGrant c t s) = [grant_session c t s]"
  by (simp add: grant_accepted)

lemma grant_inPropsRef:
  "\<not> disabled c \<Longrightarrow> numberActiveTouches t \<le> 1 \<Longrightarrow>
   inPropsRef (onPanResponderGrant c t s) =
     inPropsRef (handlePositionChange (grant_session c t s) (locationX t) (grant_pre c t s))"
  by (simp add: grant_accepted)

lemma fold_listeners:
  "listeners (fold (\<lambda>g acc. run_listener g x acc) gs s) = listeners s"
  by (induction gs arbitrary: s) (simp_all add: run_listener_def hpc_frame)

lemma move_listeners: "listeners (onPanResponderMove c x s) = listeners s"
  by (simp add: onPanResponderMove_def fold_listeners)

lemma move_single:
  "\<not> disabled c \<Longrightarrow> listeners s = [g] \<Longrightarrow>
   onPanResponderMove c x s = handlePositionChange g (x - containerX g) s"
  by (simp add: onPanResponderMove_def run_listener_def)

lemma move_disabled: "disabled c \<Longrightarrow> onPanResponderMove c x s = s"
  by (simp add: onPanResponderMove_def)

lemma step_listeners_le1:
  "length (listeners s) \<le> 1 \<Longrightarrow> length (listeners (gesture_step c e s)) \<le> 1"
proof (cases e)
  case (Grant t)
  then show "length (listeners s) \<le> 1 \<Longrightarrow> ?thesis"
    by (cases "disabled c \<or> 1 < numberActiveTouches t")
       (auto simp: grant_ignored grant_listeners)
qed (simp_all add: move_listeners release_fields onPanResponderTerminate_def)

lemma run_listeners_le1:
  "length (listeners s) \<le> 1 \<Longrightarrow> length (listeners (gesture_run evs s)) \<le> 1"
proof (induction evs arbitrary: s)
  case Nil
  then show ?case by simp
next
  case (Cons ce evs)
  obtain c e where ce: "ce = (c, e)" by (cases ce)
  from Cons.prems have "length (listeners (gesture_step c e s)) \<le> 1"
    by (rule step_listeners_le1)
  then have "length (listeners (gesture_run evs (gesture_step c e s))) \<le> 1"
    by (rule Cons.IH)
  with ce show ?case by simp
qed



subsection \<open>The order of the stored values along a run\<close>


lemma cv_bounds_high:
  assumes "\<not> sess_isLow g"
    and "fl (low (inPropsRef s) + minRange (sess_ctx g)) \<le> max_val (inPropsRef s)"
  shows "fl (low (inPropsRef s) + minRange (sess_ctx g)) \<le> computedValue g p s \<and>
         computedValue g p s \<le> max_val (inPropsRef s)"
  using clamp_between [OF assms(2)] assms(1) by (simp add: computedValue_def Let_def)

lemma cv_upper:
  "computedValue g p s \<le>
     (if sess_isLow g then fl (high (inPropsRef s) - minRange (sess_ctx g))
      else max_val (inPropsRef s))"
  by (simp add: computedValue_def Let_def clamp_upper)

lemma cv_double:
  assumes "fl (min_val (inPropsRef s)) = min_val (inPropsRef s)"
    and "fl (max_val (inPropsRef s)) = max_val (inPropsRef s)"
  shows "fl (computedValue g p s) = computedValue g p s"
proof (cases "sess_isLow g")
  case True
  let ?v = "getValueForPosition p (containerWidth g) (sess_thumbWidth g)
              (min_val (inPropsRef s)) (max_val (inPropsRef s)) (step_val (inPropsRef s))"
  let ?hi = "fl (high (inPropsRef s) - minRange (sess_ctx g))"
  from True have c: "computedValue g p s = clamp ?v (min_val (inPropsRef s)) ?hi"
    by (simp add: computedValue_def Let_def)
  from clamp_cases [of ?v "min_val (inPropsRef s)" ?hi] show ?thesis
    by (auto simp: c gvfp_double assms fl_idem)
next
  case False
  let ?v = "getValueForPosition p (containerWidth g) (sess_thumbWidth g)
              (min_val (inPropsRef s)) (max_val (inPropsRef s)) (step_val (inPropsRef s))"
  let ?lo = "fl (low (inPropsRef s) + minRange (sess_ctx g))"
  from False have c: "computedValue g p s = clamp ?v ?lo (max_val (inPropsRef s))"
    by (simp add: computedValue_def Let_def)
  from clamp_cases [of ?v ?lo "max_val (inPropsRef s)"] show ?thesis
    by (auto simp: c gvfp_double assms fl_idem)
qed

lemma fl_sub_le: "fl x = x \<Longrightarrow> 0 \<le> y \<Longrightarrow> fl (x - y) \<le> x"
  using fl_mono [of "x - y" x] by simp

lemma fl_add_ge: "fl x = x \<Longrightarrow> 0 \<le> y \<Longrightarrow> x \<le> fl (x + y)"
  using fl_mono [of x "x + y"] by simp

lemma cv_high_ge_low:
  assumes "\<not> sess_isLow g" and "0 \<le> minRange (sess_ctx g)"
    and "fl (low (inPropsRef s)) = low (inPropsRef s)"
    and "low (inPropsRef s) \<le> max_val (inPropsRef s)"
  shows "low (inPropsRef s) \<le> computedValue g p s"
proof -
  let ?v = "getValueForPosition p (containerWidth g) (sess_thumbWidth g)
              (min_val (inPropsRef s)) (max_val (inPropsRef s)) (step_val (inPropsRef s))"
  let ?lo = "fl (low (inPropsRef s) + minRange (sess_ctx g))"
  from assms(1) have c: "computedValue g p s = clamp ?v ?lo (max_val (inPropsRef s))"
    by (simp add: computedValue_def Let_def)
  from fl_add_ge [OF assms(3,2)] have "low (inPropsRef s) \<le> ?lo" .
  with assms(4) show ?thesis by (simp add: c clamp_def)
qed

lemma hpc_store_ok:
  assumes "0 \<le> mr" and "store_ok s" and "minRange (sess_ctx g) = mr"
  shows "store_ok (handlePositionChange g p s)"
proof -
  from assms(2) have st: "low (inPropsRef s) \<le> high (inPropsRef s)"
    "high (inPropsRef s) \<le> max_val (inPropsRef s)"
    "fl (low (inPropsRef s)) = low (inPropsRef s)"
    "fl (high (inPropsRef s)) = high (inPropsRef s)"
    "fl (min_val (inPropsRef s)) = min_val (inPropsRef s)"
    "fl (max_val (inPropsRef s)) = max_val (inPropsRef s)"
    by (simp_all add: store_ok_def Let_def)
  note d = cv_double [OF st(5,6), of g p]
  show ?thesis
  proof (cases "sess_isLow g")
    case True
    from assms(1,3) have "fl (high (inPropsRef s) - minRange (sess_ctx g)) \<le> high (inPropsRef s)"
      by (simp add: fl_sub_le [OF st(4)])
    with cv_upper [of g p s] True have "computedValue g p s \<le> high (inPropsRef s)"
      by simp
    with st d True show ?thesis
      by (simp add: store_ok_def Let_def hpc_inPropsRef)
  next
    case False
    from st(1,2) have "low (inPropsRef s) \<le> max_val (inPropsRef s)" by simp
    with assms(1,3) have "low (inPropsRef s) \<le> computedValue g p s"
      by (simp add: cv_high_ge_low [OF False _ st(3)])
    moreover from cv_upper [of g p s] False have "computedValue g p s \<le> max_val (inPropsRef s)"
      by simp
    ultimately show ?thesis using st d False
      by (simp add: store_ok_def Let_def hpc_inPropsRef)
  qed
qed

lemma store_ok_cong: "inPropsRef s = inPropsRef s' \<Longrightarrow> store_ok s = store_ok s'"
  by (simp add: store_ok_def)

lemma fold_store_ok:
  assumes "0 \<le> mr" and "\<forall>g\<in>set gs. minRange (sess_ctx g) = mr" and "store_ok s"
  shows "store_ok (fold (\<lambda>g acc. run_listener g x acc) gs s)"
  using assms(2,3)
proof (induction gs arbitrary: s)
  case Nil
  then show ?case by simp
next
  case (Cons g gs)
  from Cons.prems have "store_ok (run_listener g x s)"
    by (simp add: run_listener_def hpc_store_ok [OF assms(1)])
  with Cons show ?case by simp
qed

lemma step_store_ok:
  assumes "0 \<le> mr" and "store_ok s"
    and "\<forall>g\<in>set (listeners s). minRange (sess_ctx g) = mr" and "minRange c = mr"
  shows "store_ok (gesture_step c e s) \<and>
         (\<forall>g\<in>set (listeners (gesture_step c e s)). minRange (sess_ctx g) = mr)"
proof (cases e)
  case (Grant t)
  show ?thesis
  proof (cases "disabled c \<or> 1 < numberActiveTouches t")
    case True
    with assms Grant show ?thesis by (simp add: grant_ignored)
  next
    case False
    then have acc: "\<not> disabled c" "numberActiveTouches t \<le> 1" by simp_all
    have "store_ok (grant_pre c t s)"
      using assms(2) store_ok_cong [of "grant_pre c t s" s] by (simp add: grant_pre_fields)
    then have "store_ok (handlePositionChange (grant_session c t s) (locationX t)
                           (grant_pre c t s))"
      using assms(1,4) by (simp add: hpc_store_ok grant_session_fields)
    then have "store_ok (onPanResponderGrant c t s)"
      using store_ok_cong [of "onPanResponderGrant c t s"
          "handlePositionChange (grant_session c t s) (locationX t) (grant_pre c t s)"]
      by (simp add: grant_inPropsRef [OF acc])
    with Grant assms(4) acc show ?thesis
      by (simp add: grant_listeners grant_session_fields)
  qed
next
  case (Move x)
  with assms show ?thesis
    by (simp add: onPanResponderMove_def fold_listeners fold_store_ok)
next
  case Release
  with assms store_ok_cong [of "onPanResponderRelease c s" s] show ?thesis
    by (simp add: release_fields)
next
  case Terminate
  with assms show ?thesis by (simp add: onPanResponderTerminate_def)
qed

lemma run_store_ok:
  assumes "0 \<le> mr"
  shows "store_ok s \<Longrightarrow> \<forall>g\<in>set (listeners s). minRange (sess_ctx g) = mr \<Longrightarrow>
         \<forall>(c, e)\<in>set evs. minRange c = mr \<Longrightarrow> store_ok (gesture_run evs s)"
proof (induction evs arbitrary: s)
  case Nil
  then show ?case by simp
next
  case (Cons ce evs)
  obtain c e where ce: "ce = (c, e)" by (cases ce)
  with Cons.prems have "minRange c = mr" by simp
  from step_store_ok [OF assms Cons.prems(1,2) this, of e]
  have "store_ok (gesture_run evs (gesture_step c e s))"
    using Cons.prems(3) by (intro Cons.IH) simp_all
  with ce show ?case by simp
qed

subsection \<open>The concrete inputs, evaluated\<close>

lemma ex_grant_session: "grant_session ex_ctx ex_touch ex_state = ex_session"
  by (simp add: grant_session_def ex_session_def ex_touch_def ex_state_def ex_store_def
      initial_state_def ex_ctx_def isLowCloser_def)

lemma ex_grant_pre: "grant_pre ex_ctx ex_touch ex_state = ex_pre"
  by (simp add: grant_pre_def ex_grant_session ex_pre_def)
     (simp add: ex_session_def ex_state_def ex_store_def initial_state_def ex_ctx_def)

lemma ex_pre_fields:
  "inPropsRef ex_pre = ex_store"
  "gestureStateRef ex_pre = \<lparr>isLow = True, lastValue = 0, lastPosition = 0\<rparr>"
  "trace ex_pre = [SliderTouchStart 20 80]"
  "lowThumbX ex_pre = 0"
  "highThumbX ex_pre = 0"
  by (simp_all add: ex_pre_def ex_state_def initial_state_def)

lemma ex_session_fields:
  "containerX ex_session = 0"
  "sess_isLow ex_session = True"
  "containerWidth ex_session = 120"
  "sess_thumbWidth ex_session = 20"
  "sess_ctx ex_session = ex_ctx"
  by (simp_all add: ex_session_def)

lemma ex_store_fields:
  "low ex_store = 20" "high ex_store = 80" "min_val ex_store = 0" "max_val ex_store = 100"
  "step_val ex_store = 1"
  by (simp_all add: ex_store_def)

lemma ex_ctx_fields:
  "minRange ex_ctx = 0" "disabled ex_ctx = False" "disableRange ex_ctx = False"
  "onValueChanged ex_ctx = Some 1" "onSliderTouchStart ex_ctx = Some 2"
  "onSliderTouchEnd ex_ctx = Some 3" "labelUpdate ex_ctx = True" "notchUpdate ex_ctx = False"
  "min_prop ex_ctx = 0" "max_prop ex_ctx = 100" "lowProp ex_ctx = None" "highProp ex_ctx = None"
  by (simp_all add: ex_ctx_def)

lemma ex_cv_30: "computedValue ex_session 30 ex_pre = 30"
  by (simp add: computedValue_def getValueForPosition_def clamp_def ex_session_fields
      ex_pre_fields ex_store_fields ex_ctx_fields fl_small)

lemma ex_dragging_eq:
  "ex_dragging = (handlePositionChange ex_session 30 ex_pre)\<lparr>listeners := [ex_session]\<rparr>"
proof -
  have "\<not> disabled ex_ctx" and "numberActiveTouches ex_touch \<le> 1" and "locationX ex_touch = 30"
    by (simp_all add: ex_ctx_def ex_touch_def)
  then show ?thesis
    by (simp add: ex_dragging_def grant_accepted ex_grant_session ex_grant_pre)
qed

lemma ex_dragging_fields:
  "inPropsRef ex_dragging = ex_store\<lparr>low := 30\<rparr>"
  "gestureStateRef ex_dragging = \<lparr>isLow = True, lastValue = 30, lastPosition = 40\<rparr>"
  "isPressed ex_dragging = True"
  "listeners ex_dragging = [ex_session]"
  "lowThumbX ex_dragging = 30"
  "containerWidthRef ex_dragging = 120"
  "thumbWidth ex_dragging = 20"
  "trace ex_dragging =
     [SliderTouchStart 20 80, ValueChanged 30 80 True, LabelUpdate 40 30, SelectedRailUpdate]"
proof -
  show "inPropsRef ex_dragging = ex_store\<lparr>low := 30\<rparr>"
    by (simp add: ex_dragging_eq hpc_inPropsRef ex_cv_30 ex_pre_fields ex_session_fields)
  have "lastPosition (gestureStateRef (handlePositionChange ex_session 30 ex_pre)) = 40"
    by (simp add: hpc_lastPosition ex_cv_30 ex_pre_fields ex_session_fields ex_store_fields)
  then show "gestureStateRef ex_dragging = \<lparr>isLow = True, lastValue = 30, lastPosition = 40\<rparr>"
    using hpc_lastValue [of ex_session 30 ex_pre] hpc_isLow [of ex_session 30 ex_pre]
    by (cases "gestureStateRef (handlePositionChange ex_session 30 ex_pre)")
       (simp add: ex_dragging_eq ex_cv_30 ex_pre_fields)
  then show "trace ex_dragging =
     [SliderTouchStart 20 80, ValueChanged 30 80 True, LabelUpdate 40 30, SelectedRailUpdate]"
    by (simp add: ex_dragging_eq hpc_trace ex_cv_30 ex_pre_fields ex_session_fields
        ex_store_fields ex_ctx_fields)
  show "isPressed ex_dragging = True"
    by (simp add: ex_dragging_eq hpc_frame ex_pre_def)
  show "listeners ex_dragging = [ex_session]"
    by (simp add: ex_dragging_eq)
  show "containerWidthRef ex_dragging = 120" and "thumbWidth ex_dragging = 20"
    by (simp_all add: ex_dragging_eq hpc_frame ex_pre_def ex_state_def)
  show "lowThumbX ex_dragging = 30"
    by (simp add: ex_dragging_eq hpc_lowThumbX ex_cv_30 ex_pre_fields ex_session_fields
        ex_store_fields)
qed

lemma ex_gvfp:
  "getValueForPosition 30 120 20 0 100 1 = 30"
  "getValueForPosition (151 / 5) 120 20 0 100 1 = 30"
  "getValueForPosition 40 120 20 0 100 1 = 40"
  "getValueForPosition (403 / 10) 120 20 0 100 1 = 40"
  "getValueForPosition 95 120 20 0 100 1 = 95"
  by (simp_all add: getValueForPosition_def clamp_def round_def fl_small)

lemma ex_session_cv:
  assumes "min_val (inPropsRef s) = 0" "max_val (inPropsRef s) = 100" "step_val (inPropsRef s) = 1"
    and "high (inPropsRef s) = 80"
  shows "computedValue ex_session p s = clamp (getValueForPosition p 120 20 0 100 1) 0 80"
  by (simp add: computedValue_def ex_session_fields ex_ctx_fields assms fl_small)

lemma ex_dragging_store:
  "min_val (inPropsRef ex_dragging) = 0" "max_val (inPropsRef ex_dragging) = 100"
  "step_val (inPropsRef ex_dragging) = 1" "high (inPropsRef ex_dragging) = 80"
  "low (inPropsRef ex_dragging) = 30"
  by (simp_all add: ex_dragging_fields ex_store_fields)

lemma ex_cv_dragging:
  "computedValue ex_session (151 / 5) ex_dragging = 30"
  "computedValue ex_session 40 ex_dragging = 40"
  by (simp_all add: ex_session_cv ex_dragging_store ex_gvfp clamp_def)

lemma ex_moved_store:
  "min_val (inPropsRef (handlePositionChange ex_session 40 ex_dragging)) = 0"
  "max_val (inPropsRef (handlePositionChange ex_session 40 ex_dragging)) = 100"
  "step_val (inPropsRef (handlePositionChange ex_session 40 ex_dragging)) = 1"
  "high (inPropsRef (handlePositionChange ex_session 40 ex_dragging)) = 80"
  "low (inPropsRef (handlePositionChange ex_session 40 ex_dragging)) = 40"
  by (simp_all add: hpc_inPropsRef ex_cv_dragging ex_dragging_store ex_session_fields
      ex_dragging_fields(2))

lemma ex_cv_moved:
  "computedValue ex_session (403 / 10) (handlePositionChange ex_session 40 ex_dragging) = 40"
  by (simp add: ex_session_cv ex_moved_store ex_gvfp clamp_def)

lemma ex_state_fields:
  "inPropsRef ex_state = ex_store"
  "containerWidthRef ex_state = 120"
  "thumbWidth ex_state = 20"
  "trace ex_state = []"
  "listeners ex_state = []"
  "isPressed ex_state = False"
  "gestureStateRef ex_state = \<lparr>isLow = True, lastValue = 0, lastPosition = 0\<rparr>"
  "lowThumbX ex_state = 0"
  "highThumbX ex_state = 0"
  by (simp_all add: ex_state_def initial_state_def)

lemma cv_low_eval:
  assumes "sess_isLow g" "containerWidth g = 120" "sess_thumbWidth g = 20"
    and "min_val (inPropsRef s) = 0" "max_val (inPropsRef s) = 100" "step_val (inPropsRef s) = 1"
  shows "computedValue g p s =
         clamp (getValueForPosition p 120 20 0 100 1) 0
           (fl (high (inPropsRef s) - minRange (sess_ctx g)))"
  by (simp add: computedValue_def assms)

lemma ex_session_neg_fields:
  "containerX ex_session_neg = 0"
  "sess_isLow ex_session_neg = True"
  "containerWidth ex_session_neg = 120"
  "sess_thumbWidth ex_session_neg = 20"
  "minRange (sess_ctx ex_session_neg) = - 10"
  by (simp_all add: ex_session_neg_def ex_session_fields ex_ctx_neg_def)

lemma ex_neg_granted:
  "onPanResponderGrant ex_ctx_neg ex_touch ex_state =
     (handlePositionChange ex_session_neg 30 ex_pre)\<lparr>listeners := [ex_session_neg]\<rparr>"
proof -
  have "\<not> disabled ex_ctx_neg" and "numberActiveTouches ex_touch \<le> 1"
    and "locationX ex_touch = 30"
    by (simp_all add: ex_ctx_neg_def ex_ctx_fields ex_touch_def)
  moreover have "grant_session ex_ctx_neg ex_touch ex_state = ex_session_neg"
    by (simp add: grant_session_def ex_session_neg_def ex_session_def ex_touch_def
        ex_state_fields ex_store_fields ex_ctx_neg_def ex_ctx_fields isLowCloser_def)
  moreover have "grant_pre ex_ctx_neg ex_touch ex_state = grant_pre ex_ctx ex_touch ex_state"
    by (simp add: grant_pre_def grant_session_def Let_def ex_ctx_neg_def)
  ultimately show ?thesis
    by (simp add: grant_accepted ex_grant_pre)
qed

lemma ex_neg_cv_30: "computedValue ex_session_neg 30 ex_pre = 30"
  by (simp add: cv_low_eval ex_session_neg_fields ex_pre_fields ex_store_fields ex_gvfp
      clamp_def fl_small)

lemma ex_neg_granted_fields:
  "inPropsRef (onPanResponderGrant ex_ctx_neg ex_touch ex_state) = ex_store\<lparr>low := 30\<rparr>"
  "lastValue (gestureStateRef (onPanResponderGrant ex_ctx_neg ex_touch ex_state)) = 30"
  "listeners (onPanResponderGrant ex_ctx_neg ex_touch ex_state) = [ex_session_neg]"
  by (simp_all add: ex_neg_granted hpc_inPropsRef hpc_lastValue ex_neg_cv_30 ex_pre_fields
      ex_session_neg_fields)

lemma ex_neg_cv_95:
  "computedValue ex_session_neg 95 (onPanResponderGrant ex_ctx_neg ex_touch ex_state) = 90"
  by (simp add: cv_low_eval ex_session_neg_fields ex_neg_granted_fields ex_store_fields ex_gvfp
      clamp_def fl_small)











lemma grant_lastValue:
  assumes "\<not> disabled c" and "numberActiveTouches t \<le> 1"
  shows "lastValue (gestureStateRef (onPanResponderGrant c t s)) =
         computedValue (grant_session c t s) (locationX t) s"
proof -
  have "computedValue (grant_session c t s) (locationX t) (grant_pre c t s) =
        computedValue (grant_session c t s) (locationX t) s"
    by (rule cv_cong) (simp add: grant_pre_fields)
  with assms show ?thesis by (simp add: grant_accepted hpc_lastValue)
qed

lemma grant_store:
  assumes "\<not> disabled c" and "numberActiveTouches t \<le> 1"
    and "v = computedValue (grant_session c t s) (locationX t) s"
  shows "inPropsRef (onPanResponderGrant c t s) =
         (if lastValue (gestureStateRef s) = v then inPropsRef s
          else if sess_isLow (grant_session c t s) then (inPropsRef s)\<lparr>low := v\<rparr>
          else (inPropsRef s)\<lparr>high := v\<rparr>)"
proof -
  have "computedValue (grant_session c t s) (locationX t) (grant_pre c t s) = v"
    unfolding assms(3) by (rule cv_cong) (simp add: grant_pre_fields)
  with assms(1,2) show ?thesis
    by (simp add: grant_inPropsRef hpc_inPropsRef grant_pre_fields)
qed

lemma ex_frac_fields:
  "inPropsRef ex_frac = \<lparr>low = 0, high = 3602879701896397 / 4503599627370496,
                          min_val = 0, max_val = 1, step_val = 1 / 4\<rparr>"
  "containerWidthRef ex_frac = 120"
  "thumbWidth ex_frac = 20"
  "listeners ex_frac = []"
  "gestureStateRef ex_frac = \<lparr>isLow = True, lastValue = 0, lastPosition = 0\<rparr>"
  by (simp_all add: ex_frac_def ex_state_fields)

lemma ex_session_frac_fields:
  "containerX ex_session_frac = 0"
  "sess_isLow ex_session_frac = True"
  "containerWidth ex_session_frac = 120"
  "sess_thumbWidth ex_session_frac = 20"
  "minRange (sess_ctx ex_session_frac) = 3602879701896397 / 36028797018963968"
  by (simp_all add: ex_session_frac_def ex_session_fields ex_ctx_frac_def)

lemma ex_frac_bound:
  "fl (3602879701896397 / 4503599627370496 - 3602879701896397 / 36028797018963968) =
     6305039478318695 / 9007199254740992"
  "fl (25220157913274779 / 36028797018963968) = 6305039478318695 / 9007199254740992"
  by (simp_all add: fl_def flp_def ulp_def bexp.simps rne_def)

lemma ex_frac_gvfp:
  "getValueForPosition 30 120 20 0 1 (1 / 4) = 1 / 4"
  "getValueForPosition 200 120 20 0 1 (1 / 4) = 1"
  by (simp_all add: getValueForPosition_def clamp_def round_def fl_small)

lemma ex_frac_cv:
  assumes "min_val (inPropsRef s) = 0" "max_val (inPropsRef s) = 1"
    and "step_val (inPropsRef s) = 1 / 4"
    and "high (inPropsRef s) = 3602879701896397 / 4503599627370496"
  shows "computedValue ex_session_frac p s =
         clamp (getValueForPosition p 120 20 0 1 (1 / 4)) 0
           (6305039478318695 / 9007199254740992)"
  by (simp add: computedValue_def ex_session_frac_fields assms ex_frac_bound)

lemma ex_frac_session: "grant_session ex_ctx_frac ex_touch ex_frac = ex_session_frac"
  by (simp add: grant_session_def ex_session_frac_def ex_session_def ex_touch_def
      ex_frac_fields isLowCloser_def ex_ctx_frac_def ex_ctx_fields)

lemma ex_frac_granted_fields:
  "inPropsRef (onPanResponderGrant ex_ctx_frac ex_touch ex_frac) =
     (inPropsRef ex_frac)\<lparr>low := 1 / 4\<rparr>"
  "lastValue (gestureStateRef (onPanResponderGrant ex_ctx_frac ex_touch ex_frac)) = 1 / 4"
  "listeners (onPanResponderGrant ex_ctx_frac ex_touch ex_frac) = [ex_session_frac]"
proof -
  have a: "\<not> disabled ex_ctx_frac" "numberActiveTouches ex_touch \<le> 1"
    and x: "locationX ex_touch = 30"
    by (simp_all add: ex_ctx_frac_def ex_ctx_fields ex_touch_def)
  have v: "computedValue (grant_session ex_ctx_frac ex_touch ex_frac) (locationX ex_touch) ex_frac
           = 1 / 4"
    by (simp add: ex_frac_session x ex_frac_cv ex_frac_fields ex_frac_gvfp clamp_def)
  from grant_store [OF a v [symmetric]]
  show "inPropsRef (onPanResponderGrant ex_ctx_frac ex_touch ex_frac) =
          (inPropsRef ex_frac)\<lparr>low := 1 / 4\<rparr>"
    by (simp add: ex_frac_session ex_session_frac_fields ex_frac_fields(5))
  from grant_lastValue [OF a] v
  show "lastValue (gestureStateRef (onPanResponderGrant ex_ctx_frac ex_touch ex_frac)) = 1 / 4"
    by simp
  from a show "listeners (onPanResponderGrant ex_ctx_frac ex_touch ex_frac) = [ex_session_frac]"
    by (simp add: grant_listeners ex_frac_session)
qed

lemma ex_frac_cv_200:
  "computedValue ex_session_frac 200 (onPanResponderGrant ex_ctx_frac ex_touch ex_frac) =
     6305039478318695 / 9007199254740992"
  by (simp add: ex_frac_cv ex_frac_granted_fields ex_frac_fields ex_frac_gvfp clamp_def)

lemma ex_frac_high:
  "fl (3602879701896397 / 4503599627370496) = 3602879701896397 / 4503599627370496"
  by (simp add: fl_def flp_def ulp_def bexp.simps rne_def)

lemma ex_frac_run:
  "inPropsRef (gesture_run [(ex_ctx_frac, Grant ex_touch), (ex_ctx_frac, Move 200)] ex_frac) =
     (inPropsRef ex_frac)\<lparr>low := 6305039478318695 / 9007199254740992\<rparr>"
proof -
  have d: "\<not> disabled ex_ctx_frac"
    by (simp add: ex_ctx_frac_def ex_ctx_fields)
  have "gesture_run [(ex_ctx_frac, Grant ex_touch), (ex_ctx_frac, Move 200)] ex_frac =
        handlePositionChange ex_session_frac 200 (onPanResponderGrant ex_ctx_frac ex_touch ex_frac)"
    using move_single [OF d ex_frac_granted_fields(3), of 200]
    by (simp add: ex_session_frac_fields)
  then show ?thesis
    by (simp add: hpc_inPropsRef ex_frac_cv_200 ex_frac_granted_fields ex_session_frac_fields)
qed

subsection \<open>The drag controller\<close>




text \<open>
  C2, as the code has it. Along every sequence of touch-downs, moves, releases and
  terminations handled with one \<open>minRange\<close> that is not negative, starting from
  a state whose stored values are binary64 values with \<open>low \<le> high \<le> max\<close> (and
  whose registered listener, if any, was built with that \<open>minRange\<close>), the stored
  values satisfy the same after every event. The separation is kept as the code
  computes it: an accepted update of \<open>low\<close> stores a value not above the binary64
  value of \<open>high - minRange\<close>, an accepted update of \<open>high\<close> a value not below the
  binary64 value of \<open>low + minRange\<close> when that does not exceed \<open>max\<close>.
\<close>

theorem drag_updates_keep_low_below_high:
  assumes "0 \<le> mr" and "store_ok s"
    and "\<forall>g\<in>set (listeners s). minRange (sess_ctx g) = mr"
    and "\<forall>(c, e)\<in>set evs. minRange c = mr"
  shows "store_ok (gesture_run evs s) \<and>
         low (inPropsRef (gesture_run evs s)) \<le> high (inPropsRef (gesture_run evs s)) \<and>
         high (inPropsRef (gesture_run evs s)) \<le> max_val (inPropsRef (gesture_run evs s)) \<and>
         (sess_isLow g \<and> lastValue (gestureStateRef d) \<noteq> computedValue g p d \<longrightarrow>
            low (inPropsRef (handlePositionChange g p d))
              \<le> fl (high (inPropsRef d) - minRange (sess_ctx g))) \<and>
         (\<not> sess_isLow g \<and> lastValue (gestureStateRef d) \<noteq> computedValue g p d \<and>
          fl (low (inPropsRef d) + minRange (sess_ctx g)) \<le> max_val (inPropsRef d) \<longrightarrow>
            fl (low (inPropsRef d) + minRange (sess_ctx g))
              \<le> high (inPropsRef (handlePositionChange g p d)))"
proof (intro conjI impI)
  from assms have ok: "store_ok (gesture_run evs s)" by (rule run_store_ok)
  then show "store_ok (gesture_run evs s)" .
  from ok show "low (inPropsRef (gesture_run evs s)) \<le> high (inPropsRef (gesture_run evs s))"
    and "high (inPropsRef (gesture_run evs s)) \<le> max_val (inPropsRef (gesture_run evs s))"
    by (simp_all add: store_ok_def Let_def)
next
  assume "sess_isLow g \<and> lastValue (gestureStateRef d) \<noteq> computedValue g p d"
  with cv_upper [of g p d]
  show "low (inPropsRef (handlePositionChange g p d))
          \<le> fl (high (inPropsRef d) - minRange (sess_ctx g))"
    by (simp add: hpc_inPropsRef)
next
  assume a: "\<not> sess_isLow g \<and> lastValue (gestureStateRef d) \<noteq> computedValue g p d \<and>
          fl (low (inPropsRef d) + minRange (sess_ctx g)) \<le> max_val (inPropsRef d)"
  then have "fl (low (inPropsRef d) + minRange (sess_ctx g)) \<le> computedValue g p d"
    using cv_bounds_high [of g d p] by simp
  with a show "fl (low (inPropsRef d) + minRange (sess_ctx g))
                 \<le> high (inPropsRef (handlePositionChange g p d))"
    by (simp add: hpc_inPropsRef)
qed

theorem drag_updates_keep_low_below_high_witness:
  "(0::real) \<le> 0 \<and> store_ok ex_state \<and> listeners ex_state = [] \<and> minRange ex_ctx = 0 \<and>
   store_ok (gesture_run [(ex_ctx, Grant ex_touch), (ex_ctx, Move 95), (ex_ctx, Release)]
               ex_state) \<and>
   low (inPropsRef (gesture_run [(ex_ctx, Grant ex_touch), (ex_ctx, Move 95), (ex_ctx, Release)]
                      ex_state))
     \<le> high (inPropsRef (gesture_run [(ex_ctx, Grant ex_touch), (ex_ctx, Move 95),
                                       (ex_ctx, Release)] ex_state)) \<and>
   sess_isLow ex_session \<and>
   lastValue (gestureStateRef ex_dragging) \<noteq> computedValue ex_session 40 ex_dragging \<and>
   low (inPropsRef (handlePositionChange ex_session 40 ex_dragging)) \<le> 80 \<and>
   0 < minRange ex_ctx_frac \<and> store_ok ex_frac \<and> listeners ex_frac = [] \<and>
   low (inPropsRef (gesture_run [(ex_ctx_frac, Grant ex_touch), (ex_ctx_frac, Move 200)] ex_frac))
     = 6305039478318695 / 9007199254740992 \<and>
   high (inPropsRef (gesture_run [(ex_ctx_frac, Grant ex_touch), (ex_ctx_frac, Move 200)] ex_frac))
     = 3602879701896397 / 4503599627370496 \<and>
   store_ok (gesture_run [(ex_ctx_frac, Grant ex_touch), (ex_ctx_frac, Move 200)] ex_frac)"
proof -
  have a': "store_ok ex_frac"
    by (simp add: store_ok_def ex_frac_fields fl_small ex_frac_high)
  have l': "listeners ex_frac = []"
    and m': "0 \<le> minRange ex_ctx_frac" "0 < minRange ex_ctx_frac"
    by (simp_all add: ex_frac_fields ex_ctx_frac_def)
  from l' have b': "\<forall>g\<in>set (listeners ex_frac). minRange (sess_ctx g) = minRange ex_ctx_frac"
    by simp
  have c': "\<forall>(c, e)\<in>set [(ex_ctx_frac, Grant ex_touch), (ex_ctx_frac, Move 200)].
      minRange c = minRange ex_ctx_frac"
    by simp
  from drag_updates_keep_low_below_high [OF m'(1) a' b' c']
  have k: "store_ok (gesture_run [(ex_ctx_frac, Grant ex_touch), (ex_ctx_frac, Move 200)] ex_frac)"
    by blast
  have v: "low (inPropsRef (gesture_run [(ex_ctx_frac, Grant ex_touch), (ex_ctx_frac, Move 200)]
                  ex_frac)) = 6305039478318695 / 9007199254740992"
    "high (inPropsRef (gesture_run [(ex_ctx_frac, Grant ex_touch), (ex_ctx_frac, Move 200)]
                  ex_frac)) = 3602879701896397 / 4503599627370496"
    by (simp_all only: ex_frac_run ex_frac_fields, simp_all)
  have a: "store_ok ex_state"
    by (simp add: store_ok_def ex_state_fields ex_store_fields fl_small)
  have l: "listeners ex_state = []" and m: "minRange ex_ctx = 0"
    by (simp_all add: ex_state_fields ex_ctx_fields)
  from l have b: "\<forall>g\<in>set (listeners ex_state). minRange (sess_ctx g) = 0"
    by simp
  from m have c: "\<forall>(c, e)\<in>set [(ex_ctx, Grant ex_touch), (ex_ctx, Move 95), (ex_ctx, Release)].
      minRange c = 0"
    by simp
  have i: "sess_isLow ex_session"
    and n: "lastValue (gestureStateRef ex_dragging) \<noteq> computedValue ex_session 40 ex_dragging"
    and h: "fl (high (inPropsRef ex_dragging) - minRange (sess_ctx ex_session)) = 80"
    by (simp_all add: ex_session_fields ex_dragging_fields ex_cv_dragging ex_store_fields
        ex_ctx_fields fl_small)
  from drag_updates_keep_low_below_high [OF order_refl a b c, of ex_session ex_dragging 40]
    a l m i n h
  have "(0::real) \<le> 0 \<and> store_ok ex_state \<and> listeners ex_state = [] \<and> minRange ex_ctx = 0 \<and>
   store_ok (gesture_run [(ex_ctx, Grant ex_touch), (ex_ctx, Move 95), (ex_ctx, Release)]
               ex_state) \<and>
   low (inPropsRef (gesture_run [(ex_ctx, Grant ex_touch), (ex_ctx, Move 95), (ex_ctx, Release)]
                      ex_state))
     \<le> high (inPropsRef (gesture_run [(ex_ctx, Grant ex_touch), (ex_ctx, Move 95),
                                       (ex_ctx, Release)] ex_state)) \<and>
   sess_isLow ex_session \<and>
   lastValue (gestureStateRef ex_dragging) \<noteq> computedValue ex_session 40 ex_dragging \<and>
   low (inPropsRef (handlePositionChange ex_session 40 ex_dragging)) \<le> 80"
    by simp
  with m'(2) a' l' v k show ?thesis by blast
qed

text \<open>
  C2 as stated does not ask for \<open>minRange \<ge> 0\<close>, and promises the separation
  exactly. With \<open>minRange = -10\<close> the state with the thumbs at 20 and 80 satisfies
  the claim's hypotheses; a touch on the low thumb followed by a move to 95 stores
  \<open>low = 90\<close>, above \<open>high = 80\<close>. With \<open>high\<close> the binary64 value of \<open>0.8\<close>,
  \<open>low = 0\<close> and \<open>minRange\<close> the binary64 value of \<open>0.1\<close>, the hypotheses hold
  again; the same touch followed by a move to the right end stores the bound the
  code computes, \<open>0.7000000000000001\<close>, and \<open>high - low\<close> is then less than
  \<open>minRange\<close>.
\<close>

theorem drag_breaks_order_or_separation:
  "range_ok (minRange ex_ctx_neg) ex_state \<and> listeners ex_state = [] \<and>
   low (inPropsRef (gesture_run [(ex_ctx_neg, Grant ex_touch), (ex_ctx_neg, Move 95)] ex_state))
     = 90 \<and>
   high (inPropsRef (gesture_run [(ex_ctx_neg, Grant ex_touch), (ex_ctx_neg, Move 95)] ex_state))
     = 80 \<and>
   \<not> low (inPropsRef (gesture_run [(ex_ctx_neg, Grant ex_touch), (ex_ctx_neg, Move 95)]
                         ex_state))
       \<le> high (inPropsRef (gesture_run [(ex_ctx_neg, Grant ex_touch), (ex_ctx_neg, Move 95)]
                               ex_state)) \<and>
   0 \<le> minRange ex_ctx_frac \<and> range_ok (minRange ex_ctx_frac) ex_frac \<and>
   listeners ex_frac = [] \<and>
   low (inPropsRef (gesture_run [(ex_ctx_frac, Grant ex_touch), (ex_ctx_frac, Move 200)] ex_frac))
     = 6305039478318695 / 9007199254740992 \<and>
   high (inPropsRef (gesture_run [(ex_ctx_frac, Grant ex_touch), (ex_ctx_frac, Move 200)] ex_frac))
     = 3602879701896397 / 4503599627370496 \<and>
   \<not> minRange ex_ctx_frac
       \<le> high (inPropsRef (gesture_run [(ex_ctx_frac, Grant ex_touch), (ex_ctx_frac, Move 200)]
                               ex_frac))
         - low (inPropsRef (gesture_run [(ex_ctx_frac, Grant ex_touch), (ex_ctx_frac, Move 200)]
                              ex_frac))"
proof -
  have d: "\<not> disabled ex_ctx_neg"
    by (simp add: ex_ctx_neg_def ex_ctx_fields)
  have "gesture_run [(ex_ctx_neg, Grant ex_touch), (ex_ctx_neg, Move 95)] ex_state =
        handlePositionChange ex_session_neg 95 (onPanResponderGrant ex_ctx_neg ex_touch ex_state)"
    using move_single [OF d ex_neg_granted_fields(3), of 95]
    by (simp add: ex_session_neg_fields)
  then have n: "inPropsRef (gesture_run [(ex_ctx_neg, Grant ex_touch), (ex_ctx_neg, Move 95)]
                   ex_state) = ex_store\<lparr>low := 90\<rparr>"
    by (simp add: hpc_inPropsRef ex_neg_cv_95 ex_neg_granted_fields ex_session_neg_fields)
  have r: "range_ok (minRange ex_ctx_neg) ex_state"
    by (simp add: range_ok_def ex_state_fields ex_store_fields ex_ctx_neg_def)
  have d': "\<not> disabled ex_ctx_frac"
    by (simp add: ex_ctx_frac_def ex_ctx_fields)
  have "gesture_run [(ex_ctx_frac, Grant ex_touch), (ex_ctx_frac, Move 200)] ex_frac =
        handlePositionChange ex_session_frac 200 (onPanResponderGrant ex_ctx_frac ex_touch ex_frac)"
    using move_single [OF d' ex_frac_granted_fields(3), of 200]
    by (simp add: ex_session_frac_fields)
  then have f: "inPropsRef (gesture_run [(ex_ctx_frac, Grant ex_touch), (ex_ctx_frac, Move 200)]
                   ex_frac) =
                (inPropsRef ex_frac)\<lparr>low := 6305039478318695 / 9007199254740992\<rparr>"
    by (simp add: hpc_inPropsRef ex_frac_cv_200 ex_frac_granted_fields ex_session_frac_fields)
  have r': "range_ok (minRange ex_ctx_frac) ex_frac" "0 \<le> minRange ex_ctx_frac"
    by (simp_all add: range_ok_def ex_frac_fields ex_ctx_frac_def)
  from n r f r' show ?thesis
    by (simp add: ex_state_fields ex_store_fields ex_frac_fields ex_ctx_frac_def)
qed

text \<open>
  C3. When the value computed for a move equals the value last recorded, the
  handler returns the state as it was: no thumb position is set, the store is not
  written and nothing is called. So of two consecutive moves that compute the same
  value the second changes nothing, and the two together add at most one change
  notification.
\<close>

theorem unchanged_value_skips_downstream_work:
  "(computedValue g p s = lastValue (gestureStateRef s) \<longrightarrow> handlePositionChange g p s = s) \<and>
   (computedValue g p2 (handlePositionChange g p1 s) = computedValue g p1 s \<longrightarrow>
      handlePositionChange g p2 (handlePositionChange g p1 s) = handlePositionChange g p1 s \<and>
      length (filter isValueChanged
                (trace (handlePositionChange g p2 (handlePositionChange g p1 s))))
        \<le> length (filter isValueChanged (trace s)) + 1)"
proof (intro conjI impI)
  assume "computedValue g p s = lastValue (gestureStateRef s)"
  then show "handlePositionChange g p s = s"
    by (simp add: hpc_skip)
next
  assume same: "computedValue g p2 (handlePositionChange g p1 s) = computedValue g p1 s"
  have "lastValue (gestureStateRef (handlePositionChange g p1 s)) =
        computedValue g p2 (handlePositionChange g p1 s)"
    by (simp add: hpc_lastValue same)
  then show second: "handlePositionChange g p2 (handlePositionChange g p1 s) =
                     handlePositionChange g p1 s"
    by (rule hpc_skip)
  have "length (filter isValueChanged (trace (handlePositionChange g p1 s)))
          \<le> length (filter isValueChanged (trace s)) + 1"
    by (simp add: hpc_trace split: option.split)
  with second show
    "length (filter isValueChanged
               (trace (handlePositionChange g p2 (handlePositionChange g p1 s))))
       \<le> length (filter isValueChanged (trace s)) + 1"
    by simp
qed

theorem unchanged_value_skips_downstream_work_witness:
  "computedValue ex_session (151 / 5) ex_dragging = lastValue (gestureStateRef ex_dragging) \<and>
   handlePositionChange ex_session (151 / 5) ex_dragging = ex_dragging \<and>
   computedValue ex_session (403 / 10) (handlePositionChange ex_session 40 ex_dragging) =
     computedValue ex_session 40 ex_dragging \<and>
   handlePositionChange ex_session (403 / 10) (handlePositionChange ex_session 40 ex_dragging) =
     handlePositionChange ex_session 40 ex_dragging \<and>
   length (filter isValueChanged
             (trace (handlePositionChange ex_session (403 / 10)
                       (handlePositionChange ex_session 40 ex_dragging))))
     \<le> length (filter isValueChanged (trace ex_dragging)) + 1"
proof -
  have h1: "computedValue ex_session (151 / 5) ex_dragging =
            lastValue (gestureStateRef ex_dragging)"
    by (simp add: ex_cv_dragging ex_dragging_fields)
  have h2: "computedValue ex_session (403 / 10) (handlePositionChange ex_session 40 ex_dragging) =
            computedValue ex_session 40 ex_dragging"
    by (simp add: ex_cv_dragging ex_cv_moved)
  from h1 h2 unchanged_value_skips_downstream_work
               [of ex_session "151 / 5" ex_dragging "403 / 10" 40]
  show ?thesis by blast
qed

text \<open>
  C4. With \<open>disabled\<close> set, a touch-down and a move change nothing and call
  nothing, as the claim says. The release handler has no such test: the release
  that ends the touch calls \<open>onSliderTouchEnd\<close> with the stored values.
\<close>

theorem disabled_release_still_notifies:
  "disabled ex_ctx_disabled \<and>
   onPanResponderGrant ex_ctx_disabled ex_touch ex_state = ex_state \<and>
   onPanResponderMove ex_ctx_disabled 40 ex_state = ex_state \<and>
   trace ex_state = [] \<and>
   trace (gesture_run [(ex_ctx_disabled, Grant ex_touch), (ex_ctx_disabled, Move 40),
                       (ex_ctx_disabled, Release)] ex_state) = [SliderTouchEnd 20 80]"
proof -
  have d: "disabled ex_ctx_disabled" and e: "onSliderTouchEnd ex_ctx_disabled = Some 3"
    by (simp_all add: ex_ctx_disabled_def ex_ctx_fields)
  from d have g: "onPanResponderGrant ex_ctx_disabled ex_touch ex_state = ex_state"
    by (simp add: grant_ignored)
  from d have m: "onPanResponderMove ex_ctx_disabled 40 ex_state = ex_state"
    by (rule move_disabled)
  from d g m e show ?thesis
    by (simp add: release_fields ex_state_fields ex_store_fields)
qed




subsection \<open>Thumb positions\<close>

text \<open>
  C6. The pixel offset the code gives a thumb is
  \<open>(value - min) / (max - min) * (containerWidth - thumbWidth)\<close>, in \<open>updateThumbs\<close>
  for both thumbs and in \<open>handlePositionChange\<close> for the active one; and when
  \<open>min < max\<close>, the container is at least as wide as the thumb and the value lies
  between \<open>min\<close> and \<open>max\<close>, the offset lies between \<open>0\<close> and
  \<open>containerWidth - thumbWidth\<close>.
\<close>

theorem thumb_offset_linear_and_bounded:
  "(thumbWidth s \<noteq> 0 \<and> containerWidthRef s \<noteq> 0 \<longrightarrow>
      lowThumbX (updateThumbs c s) =
        ((low (inPropsRef s) - min_prop c) / (max_prop c - min_prop c)) *
          (containerWidthRef s - thumbWidth s) \<and>
      (\<not> disableRange c \<longrightarrow>
         highThumbX (updateThumbs c s) =
           ((high (inPropsRef s) - min_prop c) / (max_prop c - min_prop c)) *
             (containerWidthRef s - thumbWidth s)) \<and>
      (min_prop c < max_prop c \<and> thumbWidth s \<le> containerWidthRef s \<and>
       min_prop c \<le> low (inPropsRef s) \<and> low (inPropsRef s) \<le> max_prop c \<longrightarrow>
         0 \<le> lowThumbX (updateThumbs c s) \<and>
         lowThumbX (updateThumbs c s) \<le> containerWidthRef s - thumbWidth s) \<and>
      (\<not> disableRange c \<and> min_prop c < max_prop c \<and> thumbWidth s \<le> containerWidthRef s \<and>
       min_prop c \<le> high (inPropsRef s) \<and> high (inPropsRef s) \<le> max_prop c \<longrightarrow>
         0 \<le> highThumbX (updateThumbs c s) \<and>
         highThumbX (updateThumbs c s) \<le> containerWidthRef s - thumbWidth s)) \<and>
   (lastValue (gestureStateRef d) \<noteq> computedValue g p d \<longrightarrow>
      (if sess_isLow g then lowThumbX (handlePositionChange g p d)
       else highThumbX (handlePositionChange g p d)) =
        ((computedValue g p d - min_val (inPropsRef d)) /
           (max_val (inPropsRef d) - min_val (inPropsRef d))) *
          (containerWidth g - sess_thumbWidth g) \<and>
      (min_val (inPropsRef d) < max_val (inPropsRef d) \<and>
       sess_thumbWidth g \<le> containerWidth g \<and>
       min_val (inPropsRef d) \<le> computedValue g p d \<and>
       computedValue g p d \<le> max_val (inPropsRef d) \<longrightarrow>
         0 \<le> (if sess_isLow g then lowThumbX (handlePositionChange g p d)
                else highThumbX (handlePositionChange g p d)) \<and>
         (if sess_isLow g then lowThumbX (handlePositionChange g p d)
          else highThumbX (handlePositionChange g p d))
           \<le> containerWidth g - sess_thumbWidth g))"
  using updateThumbs_lowThumbX [of s c] updateThumbs_highThumbX_range [of s c]
    updateThumbs_low_bounds [of s c] updateThumbs_high_bounds [of s c]
    hpc_active_thumb [of d g p] hpc_active_thumb_bounds [of d g p]
  by blast

theorem thumb_offset_linear_and_bounded_witness:
  "thumbWidth ex_dragging \<noteq> 0 \<and> containerWidthRef ex_dragging \<noteq> 0 \<and> \<not> disableRange ex_ctx \<and>
   min_prop ex_ctx < max_prop ex_ctx \<and> thumbWidth ex_dragging \<le> containerWidthRef ex_dragging \<and>
   min_prop ex_ctx \<le> low (inPropsRef ex_dragging) \<and>
   low (inPropsRef ex_dragging) \<le> max_prop ex_ctx \<and>
   min_prop ex_ctx \<le> high (inPropsRef ex_dragging) \<and>
   high (inPropsRef ex_dragging) \<le> max_prop ex_ctx \<and>
   lowThumbX (updateThumbs ex_ctx ex_dragging) = 30 \<and>
   highThumbX (updateThumbs ex_ctx ex_dragging) = 80 \<and>
   0 \<le> lowThumbX (updateThumbs ex_ctx ex_dragging) \<and>
   highThumbX (updateThumbs ex_ctx ex_dragging) \<le> 100 \<and>
   lastValue (gestureStateRef ex_dragging) \<noteq> computedValue ex_session 40 ex_dragging \<and>
   min_val (inPropsRef ex_dragging) < max_val (inPropsRef ex_dragging) \<and>
   sess_thumbWidth ex_session \<le> containerWidth ex_session \<and>
   lowThumbX (handlePositionChange ex_session 40 ex_dragging) = 40 \<and>
   0 \<le> lowThumbX (handlePositionChange ex_session 40 ex_dragging) \<and>
   lowThumbX (handlePositionChange ex_session 40 ex_dragging) \<le> 100"
proof -
  have w: "thumbWidth ex_dragging \<noteq> 0 \<and> containerWidthRef ex_dragging \<noteq> 0"
    and r: "\<not> disableRange ex_ctx"
    and b: "min_prop ex_ctx < max_prop ex_ctx \<and> thumbWidth ex_dragging \<le> containerWidthRef ex_dragging \<and>
       min_prop ex_ctx \<le> low (inPropsRef ex_dragging) \<and>
       low (inPropsRef ex_dragging) \<le> max_prop ex_ctx"
    and b': "min_prop ex_ctx \<le> high (inPropsRef ex_dragging) \<and>
       high (inPropsRef ex_dragging) \<le> max_prop ex_ctx"
    and a: "lastValue (gestureStateRef ex_dragging) \<noteq> computedValue ex_session 40 ex_dragging"
    and m: "min_val (inPropsRef ex_dragging) < max_val (inPropsRef ex_dragging) \<and>
       sess_thumbWidth ex_session \<le> containerWidth ex_session \<and>
       min_val (inPropsRef ex_dragging) \<le> computedValue ex_session 40 ex_dragging \<and>
       computedValue ex_session 40 ex_dragging \<le> max_val (inPropsRef ex_dragging)"
    by (simp_all add: ex_dragging_fields ex_ctx_fields ex_store_fields ex_session_fields
        ex_cv_dragging)
  note t = thumb_offset_linear_and_bounded [of ex_dragging ex_ctx ex_dragging ex_session 40]
  from t w r have u: "lowThumbX (updateThumbs ex_ctx ex_dragging) =
        ((low (inPropsRef ex_dragging) - min_prop ex_ctx) / (max_prop ex_ctx - min_prop ex_ctx)) *
          (containerWidthRef ex_dragging - thumbWidth ex_dragging)"
    "highThumbX (updateThumbs ex_ctx ex_dragging) =
           ((high (inPropsRef ex_dragging) - min_prop ex_ctx) / (max_prop ex_ctx - min_prop ex_ctx)) *
             (containerWidthRef ex_dragging - thumbWidth ex_dragging)"
    by blast+
  from t a have v: "(if sess_isLow ex_session then lowThumbX (handlePositionChange ex_session 40 ex_dragging)
       else highThumbX (handlePositionChange ex_session 40 ex_dragging)) =
        ((computedValue ex_session 40 ex_dragging - min_val (inPropsRef ex_dragging)) /
           (max_val (inPropsRef ex_dragging) - min_val (inPropsRef ex_dragging))) *
          (containerWidth ex_session - sess_thumbWidth ex_session)"
    by blast
  have u': "lowThumbX (updateThumbs ex_ctx ex_dragging) = 30"
    "highThumbX (updateThumbs ex_ctx ex_dragging) = 80"
    by (simp_all add: u ex_dragging_fields ex_ctx_fields ex_store_fields)
  have v': "lowThumbX (handlePositionChange ex_session 40 ex_dragging) = 40"
    using v by (simp add: ex_dragging_fields ex_store_fields ex_session_fields ex_cv_dragging)
  show ?thesis
    by (simp add: u' v' ex_dragging_fields ex_ctx_fields ex_store_fields ex_session_fields
        ex_cv_dragging)
qed




subsection \<open>The external sync\<close>




subsection \<open>Termination requests\<close>

text \<open>
  C7, as the code has it. The handler of a termination request is the constant
  \<open>falseFunc\<close>: the request is rejected in every state, whether a drag has
  started or not.
\<close>

theorem termination_request_always_rejected:
  "onPanResponderTerminationRequest s = False"
  by (simp add: onPanResponderTerminationRequest_def)

text \<open>
  C7 as stated says that the request is accepted once a drag has started. In the
  state after a touch-down on the low thumb, with the control pressed and the
  session's listener registered, the handler still answers \<open>false\<close>.
\<close>

theorem termination_request_rejected_while_dragging:
  "isPressed ex_dragging \<and> listeners ex_dragging = [ex_session] \<and>
   \<not> onPanResponderTerminationRequest ex_dragging"
  by (simp add: ex_dragging_fields onPanResponderTerminationRequest_def)

subsection \<open>The listener on the pointer stream\<close>

text \<open>
  C10. At most one listener is registered on \<open>pointerX\<close> at any time. A
  touch-down that starts a session leaves exactly the new session's listener,
  whatever was registered before; a touch-down that is ignored, a move, a release
  and a termination leave the listeners as they are. So a move is processed by one
  call of the handler of the session started last, and changes nothing when no
  session was ever started.
\<close>

theorem single_pointer_listener:
  "length (listeners (gesture_run evs (initial_state st))) \<le> 1 \<and>
   (\<not> disabled c \<and> numberActiveTouches t \<le> 1 \<longrightarrow>
      listeners (onPanResponderGrant c t s) = [grant_session c t s] \<and>
      sess_ctx (grant_session c t s) = c \<and>
      containerX (grant_session c t s) = pageX t - locationX t) \<and>
   (disabled c \<or> 1 < numberActiveTouches t \<longrightarrow>
      listeners (onPanResponderGrant c t s) = listeners s) \<and>
   listeners (onPanResponderMove c x s) = listeners s \<and>
   listeners (onPanResponderRelease c s) = listeners s \<and>
   listeners (onPanResponderTerminate s) = listeners s \<and>
   (\<not> disabled c \<and> listeners s = [g] \<longrightarrow>
      onPanResponderMove c x s = handlePositionChange g (x - containerX g) s) \<and>
   (listeners s = [] \<longrightarrow> onPanResponderMove c x s = s)"
proof -
  have "length (listeners (initial_state st)) \<le> 1"
    by (simp add: initial_state_def)
  then have "length (listeners (gesture_run evs (initial_state st))) \<le> 1"
    by (rule run_listeners_le1)
  moreover have "listeners s = [] \<Longrightarrow> onPanResponderMove c x s = s"
    by (simp add: onPanResponderMove_def)
  moreover have "disabled c \<or> 1 < numberActiveTouches t \<Longrightarrow>
      listeners (onPanResponderGrant c t s) = listeners s"
    by (simp add: grant_ignored)
  ultimately show ?thesis
    by (simp add: grant_listeners grant_session_fields move_listeners release_fields
        onPanResponderTerminate_def move_single)
qed

theorem single_pointer_listener_witness:
  "\<not> disabled ex_ctx \<and> numberActiveTouches ex_touch \<le> 1 \<and>
   listeners (onPanResponderGrant ex_ctx ex_touch ex_dragging) = [ex_session] \<and>
   listeners ex_dragging = [ex_session] \<and>
   onPanResponderMove ex_ctx 40 ex_dragging = handlePositionChange ex_session 40 ex_dragging \<and>
   listeners (initial_state ex_store) = [] \<and>
   onPanResponderMove ex_ctx 40 (initial_state ex_store) = initial_state ex_store \<and>
   length (listeners (gesture_run [(ex_ctx, Grant ex_touch), (ex_ctx, Move 40), (ex_ctx, Release),
                                    (ex_ctx, Grant ex_touch)] (initial_state ex_store))) \<le> 1"
proof -
  have h: "\<not> disabled ex_ctx \<and> numberActiveTouches ex_touch \<le> 1"
    by (simp add: ex_ctx_fields ex_touch_def)
  have l: "listeners ex_dragging = [ex_session]" "listeners (initial_state ex_store) = []"
    by (simp_all add: ex_dragging_fields initial_state_def)
  have g: "grant_session ex_ctx ex_touch ex_dragging = ex_session"
    by (simp add: grant_session_def ex_session_def ex_dragging_fields ex_store_fields
        ex_touch_def ex_ctx_fields isLowCloser_def)
  have x: "40 - containerX ex_session = 40"
    by (simp add: ex_session_fields)
  from h l
    single_pointer_listener [of "[(ex_ctx, Grant ex_touch), (ex_ctx, Move 40), (ex_ctx, Release),
        (ex_ctx, Grant ex_touch)]" ex_store ex_ctx ex_touch ex_dragging 40 ex_session]
    single_pointer_listener [of "[]" ex_store ex_ctx ex_touch "initial_state ex_store" 40 ex_session]
  show ?thesis
    by (simp add: g x)
qed

end
